theory Spec2Isabelle
  imports Main "HOL-Library.Sublist" "HOL-Library.Char_ord" "HOL-Library.List_Lexorder"
begin

section \<open>Data model\<close>

text \<open>
  The records of the document, with the fields the source reads and writes. A JavaScript
  property that may hold \<^verbatim>\<open>null\<close> or be absent is an \<open>option\<close>; \<open>progress\<close> is
  the integer number the client stores (\<^verbatim>\<open>parseInt(...) || 0\<close> in handleSaveStage,
  \<^verbatim>\<open>0\<close> in handleCreateProject). Field names carry a prefix where two records of the
  source use the same property name.
\<close>

record project =
  p_id :: string
  p_name :: string
  p_description :: string
  p_createdBy :: string
  p_createdAt :: string
  completionDate :: "string option"

record stage =
  s_id :: string
  projectId :: string
  s_name :: string
  plannedStart :: string
  plannedEnd :: string
  actualStart :: string
  actualEnd :: string
  progress :: int
  status :: string

record user =
  u_id :: string
  username :: string
  email :: string
  role :: string

record notification =
  n_id :: string
  userId :: string
  n_projectId :: string
  stageId :: string
  message :: string
  read :: bool
  n_createdAt :: string

text \<open>
  The persisted document. \<^verbatim>\<open>dbData.projects || []\<close> and \<^verbatim>\<open>dbData.stages || []\<close> read
  a collection that may be absent from the file, so both are optional. The server never
  looks into the other collections (users, notifications, delayRecords, lessonsLearned,
  projectReports): they are kept under their property names as the arrays they are, of a
  type \<open>'a\<close> of untyped arrays.
\<close>

record 'a database =
  projects :: "project list option"
  stages :: "stage list option"
  collections :: "(string \<times> 'a) list"

definition orEmpty :: "'a list option \<Rightarrow> 'a list" where
  "orEmpty v = (case v of None \<Rightarrow> [] | Some xs \<Rightarrow> xs)"

text \<open>
  JavaScript truthiness of a property that holds a string, \<^verbatim>\<open>null\<close> or nothing:
  \<^verbatim>\<open>null\<close>, \<^verbatim>\<open>undefined\<close> and the empty string are falsy, every other string is truthy.
\<close>

definition truthy :: "string option \<Rightarrow> bool" where
  "truthy v = (case v of None \<Rightarrow> False | Some s \<Rightarrow> s \<noteq> [])"

text \<open>
  \<^verbatim>\<open>parseInt\<close> applied to an integer number prints it in decimal and reads it back
  (numbers of magnitude below \<open>10\<^sup>2\<^sup>1\<close>, which print without an exponent).
\<close>

definition parseInt :: "int \<Rightarrow> int" where
  "parseInt n = n"

section \<open>Server: business logic helpers\<close>

text \<open>
  \<^verbatim>\<open>isProjectCompleted(projectId, stages)\<close> of server.js.
\<close>

definition isProjectCompleted :: "string \<Rightarrow> stage list \<Rightarrow> bool" where
  "isProjectCompleted pid sts =
     (let projectStages = filter (\<lambda>s. projectId s = pid) sts
      in if length projectStages = 0 then False
         else list_all (\<lambda>s. parseInt (progress s) = 100) projectStages)"

text \<open>
  The body of the \<^verbatim>\<open>forEach\<close> callbacks of evaluateProjectCompletionStatus (server) and
  evaluateProjectCompletion (client), given the value of their local \<^verbatim>\<open>completed\<close>:
  the project as mutated, and whether \<^verbatim>\<open>updated = true\<close> was executed. \<open>now\<close> is
  the result of \<^verbatim>\<open>new Date().toISOString()\<close>.
\<close>

definition setCompletion :: "string \<Rightarrow> bool \<Rightarrow> project \<Rightarrow> project \<times> bool" where
  "setCompletion now completed p =
     (if completed \<and> \<not> truthy (completionDate p) then (p\<lparr>completionDate := Some now\<rparr>, True)
      else if \<not> completed \<and> truthy (completionDate p) then (p\<lparr>completionDate := None\<rparr>, True)
      else (p, False))"

text \<open>
  The \<^verbatim>\<open>projects.forEach\<close> loop of the server. The clock is read once for each project
  visited: \<open>clock i\<close> is the reading at the project in position \<open>i\<close>. The flag
  \<^verbatim>\<open>updated\<close> is threaded through the loop.
\<close>

fun forEachProject ::
  "(nat \<Rightarrow> string) \<Rightarrow> stage list \<Rightarrow> nat \<Rightarrow> project list \<Rightarrow> bool \<Rightarrow> project list \<times> bool" where
  "forEachProject clock sts i [] updated = ([], updated)"
| "forEachProject clock sts i (p # ps) updated =
     (let completed = isProjectCompleted (p_id p) sts;
          (p', changed) = setCompletion (clock i) completed p;
          (ps', updated') = forEachProject clock sts (Suc i) ps (updated \<or> changed)
      in (p' # ps', updated'))"

text \<open>
  \<^verbatim>\<open>evaluateProjectCompletionStatus(dbData)\<close>: the returned flag and the document after
  the call. The project objects are mutated in place, so a present \<^verbatim>\<open>projects\<close> array
  holds the mutated projects whether or not the final assignment runs; an absent one
  stays absent (the loop then runs over a fresh empty array).
\<close>

definition evaluateProjectCompletionStatus ::
  "(nat \<Rightarrow> string) \<Rightarrow> 'a database \<Rightarrow> bool \<times> 'a database" where
  "evaluateProjectCompletionStatus clock dbData =
     (let (ps', updated) =
            forEachProject clock (orEmpty (stages dbData)) 0 (orEmpty (projects dbData)) False
      in (updated,
          case projects dbData of
            None \<Rightarrow> dbData
          | Some _ \<Rightarrow> dbData\<lparr>projects := Some ps'\<rparr>))"

section \<open>Server: the write queue\<close>

text \<open>
  \<^verbatim>\<open>writeQueue\<close> is a chain of promises. \<^verbatim>\<open>writeDB(dbData)\<close> appends a callback with
  \<^verbatim>\<open>writeQueue.then(...)\<close> and hands the caller a promise of its own. The state keeps
  the file's content (\<open>None\<close>: unreadable, so that \<^verbatim>\<open>readDB\<close> returns \<^verbatim>\<open>null\<close>), the
  settlement of the last link of the chain whose turn has come, the callbacks still
  waiting in the order of their \<^verbatim>\<open>then\<close>, the callers' promises settled so far, and
  the documents passed to \<^verbatim>\<open>fs.writeFileSync\<close> so far, one for each call.
\<close>

datatype settlement = Fulfilled | Rejected

record 'a serializer =
  disk :: "'a database option"
  chain :: settlement
  waiting :: "(nat \<times> 'a database) list"
  settled :: "(nat \<times> settlement) list"
  issued :: nat
  attempts :: "'a database list"

text \<open>
  What \<^verbatim>\<open>fs.writeFileSync\<close> does when called: it returns, the file then holding the whole
  document, or it throws, the file then holding whatever the failed call left.
\<close>

datatype 'a fsResult = Written | Throws "'a database option"

definition initialSerializer :: "'a database option \<Rightarrow> 'a serializer" where
  "initialSerializer d =
     \<lparr>disk = d, chain = Fulfilled, waiting = [], settled = [], issued = 0, attempts = []\<rparr>"

text \<open>
  \<^verbatim>\<open>writeDB(dbData)\<close>: the new promise is numbered by the order of the calls. The
  callback writes the document as it is at its turn; the handlers do not change the
  document after the call.
\<close>

definition writeDB :: "'a database \<Rightarrow> 'a serializer \<Rightarrow> 'a serializer" where
  "writeDB dbData s = s\<lparr>waiting := waiting s @ [(issued s, dbData)], issued := Suc (issued s)\<rparr>"

text \<open>
  The turn of the next callback of the chain. A \<^verbatim>\<open>then\<close> callback runs only when the
  link before it is fulfilled; after a rejected link it is skipped, the rejection is
  passed on and the caller's promise is never settled. The callback itself writes inside
  \<^verbatim>\<open>try\<close>: on success it resolves the caller's promise, on an exception it rejects it
  in the \<^verbatim>\<open>catch\<close> block; either way it returns normally, which fulfils its link.
\<close>

definition runNext :: "'a fsResult \<Rightarrow> 'a serializer \<Rightarrow> 'a serializer" where
  "runNext r s =
     (case waiting s of
        [] \<Rightarrow> s
      | (n, dbData) # rest \<Rightarrow>
          (case chain s of
             Rejected \<Rightarrow> s\<lparr>waiting := rest\<rparr>
           | Fulfilled \<Rightarrow>
               (case r of
                  Written \<Rightarrow>
                    s\<lparr>disk := Some dbData, waiting := rest, attempts := attempts s @ [dbData],
                      settled := settled s @ [(n, Fulfilled)], chain := Fulfilled\<rparr>
                | Throws left \<Rightarrow>
                    s\<lparr>disk := left, waiting := rest, attempts := attempts s @ [dbData],
                      settled := settled s @ [(n, Rejected)], chain := Fulfilled\<rparr>)))"

text \<open>
  A run of the server's write queue: calls of \<^verbatim>\<open>writeDB\<close> and turns of the chain, in
  any order.
\<close>

datatype 'a queueEvent = Enqueue "'a database" | Turn "'a fsResult"

fun queueStep :: "'a queueEvent \<Rightarrow> 'a serializer \<Rightarrow> 'a serializer" where
  "queueStep (Enqueue dbData) s = writeDB dbData s"
| "queueStep (Turn r) s = runNext r s"

definition runQueue :: "'a queueEvent list \<Rightarrow> 'a serializer \<Rightarrow> 'a serializer" where
  "runQueue evs s = fold queueStep evs s"

text \<open>
  The documents passed to \<^verbatim>\<open>writeDB\<close> in a run, in the order of the calls, and the
  results of \<^verbatim>\<open>fs.writeFileSync\<close> at the turns of the run, in their order.
\<close>

fun enqueued :: "'a queueEvent list \<Rightarrow> 'a database list" where
  "enqueued [] = []"
| "enqueued (Enqueue dbData # evs) = dbData # enqueued evs"
| "enqueued (Turn r # evs) = enqueued evs"

fun turns :: "'a queueEvent list \<Rightarrow> 'a fsResult list" where
  "turns [] = []"
| "turns (Enqueue dbData # evs) = turns evs"
| "turns (Turn r # evs) = r # turns evs"

definition outcomeOf :: "'a fsResult \<Rightarrow> settlement" where
  "outcomeOf r = (case r of Written \<Rightarrow> Fulfilled | Throws _ \<Rightarrow> Rejected)"

text \<open>
  A callback gets its turn once, after the call of \<^verbatim>\<open>writeDB\<close> that registered it: in
  a run of the server every turn finds a callback waiting. \<open>k\<close> is the number of
  callbacks waiting at the start.
\<close>

fun balanced :: "nat \<Rightarrow> 'a queueEvent list \<Rightarrow> bool" where
  "balanced k [] = True"
| "balanced k (Enqueue dbData # evs) = balanced (Suc k) evs"
| "balanced k (Turn r # evs) = (0 < k \<and> balanced (k - 1) evs)"

text \<open>
  The invariant of a run from the initial state: the chain is fulfilled; the writes
  attempted are the documents enqueued first, in the order of the calls; the promises
  are settled in that order, each by the result of its own write; the callbacks waiting
  are the remaining calls; the file holds what the last write left.
\<close>

definition queueInv :: "'a database option \<Rightarrow> 'a queueEvent list \<Rightarrow> 'a serializer \<Rightarrow> bool" where
  "queueInv d evs s \<longleftrightarrow>
     chain s = Fulfilled \<and>
     attempts s = take (length (turns evs)) (enqueued evs) \<and>
     settled s = zip [0..<length (turns evs)] (map outcomeOf (turns evs)) \<and>
     waiting s = drop (length (turns evs)) (zip [0..<length (enqueued evs)] (enqueued evs)) \<and>
     issued s = length (enqueued evs) \<and>
     length (turns evs) \<le> length (enqueued evs) \<and>
     disk s = (if turns evs = [] then d
               else (case last (turns evs) of
                       Written \<Rightarrow> Some (enqueued evs ! (length (turns evs) - 1))
                     | Throws left \<Rightarrow> left))"

section \<open>Server: request handlers\<close>

text \<open>
  What a handler does with a request: the status code and body it sends, and the documents
  it passes to \<^verbatim>\<open>writeDB\<close>. A handler reads the file through \<^verbatim>\<open>readDB\<close> (its argument
  \<open>file\<close>, \<open>None\<close> when \<^verbatim>\<open>readDB\<close> returns \<^verbatim>\<open>null\<close>) and changes it through
  \<^verbatim>\<open>writeDB\<close> only. \<open>writeOk\<close> tells whether the promise it awaits is resolved; a
  rejected one throws at the \<^verbatim>\<open>await\<close>.
\<close>

record enriched =
  e_project :: project
  e_status :: string
  totalProgress :: int
  stageCount :: nat

record summary =
  sum_id :: string
  sum_name :: string
  completed :: bool
  sum_completionDate :: "string option"

text \<open>
  A JavaScript number that is the result of \<^verbatim>\<open>parseInt\<close> on a string.
\<close>

datatype jsnum = NaN | Num int

datatype responseBody =
    ErrorBody string
  | SuccessBody
  | CompletedBody nat "jsnum option" "jsnum option" "enriched list"
  | InProgressBody nat "enriched list"
  | EvaluateBody bool "summary list"

record 'a outcome =
  statusCode :: nat
  body :: responseBody
  writes :: "'a database list"

text \<open>
  The file after the writes of a handler, when each of them succeeds.
\<close>

definition persist :: "'a database option \<Rightarrow> 'a database list \<Rightarrow> 'a database option" where
  "persist file ws = fold (\<lambda>w _. Some w) ws file"

text \<open>
  \<^verbatim>\<open>pStages.length ? Math.round(sum / pStages.length) : 0\<close>, with \<^verbatim>\<open>Math.round\<close>
  rounding a half upwards.
\<close>

definition avgProgress :: "stage list \<Rightarrow> int" where
  "avgProgress pStages =
     (if length pStages = 0 then 0
      else (2 * sum_list (map (\<lambda>s. parseInt (progress s)) pStages) + int (length pStages))
             div (2 * int (length pStages)))"

definition enrich :: "string \<Rightarrow> stage list \<Rightarrow> project \<Rightarrow> enriched" where
  "enrich st sts p =
     (let pStages = filter (\<lambda>s. projectId s = p_id p) sts
      in \<lparr>e_project = p, e_status = st, totalProgress = avgProgress pStages,
          stageCount = length pStages\<rparr>)"

text \<open>
  \<^verbatim>\<open>query.month ? parseInt(query.month) : null\<close>: a query parameter is a string or is
  absent (a parameter given several times is an array, truthy, which \<^verbatim>\<open>parseInt\<close>
  reads as the string of its elements joined by commas); \<open>None\<close> as result is
  \<^verbatim>\<open>null\<close>. \<open>parseIntS\<close> is \<^verbatim>\<open>parseInt\<close> on strings.
\<close>

definition queryFilter :: "(string \<Rightarrow> jsnum) \<Rightarrow> string option \<Rightarrow> jsnum option" where
  "queryFilter parseIntS q = (if truthy q then Some (parseIntS (the q)) else None)"

text \<open>
  The filter callback of the completed-projects handler. \<open>localDate\<close> gives, for the
  string passed to \<^verbatim>\<open>new Date\<close>, the results of \<^verbatim>\<open>getFullYear()\<close> and \<^verbatim>\<open>getMonth()\<close>
  in the server's time zone, or \<open>None\<close> for an invalid date, where both are \<^verbatim>\<open>NaN\<close>.
  A comparison \<^verbatim>\<open>===\<close> with \<^verbatim>\<open>NaN\<close> on either side is false. The callback runs on
  projects whose completionDate is truthy only.
\<close>

definition matchesFilter ::
  "(string \<Rightarrow> (int \<times> int) option) \<Rightarrow> jsnum option \<Rightarrow> jsnum option \<Rightarrow> project \<Rightarrow> bool" where
  "matchesFilter localDate filterMonth filterYear p =
     (let d = (case completionDate p of None \<Rightarrow> None | Some cd \<Rightarrow> localDate cd);
          matchMonth =
            (case filterMonth of
               None \<Rightarrow> True
             | Some fm \<Rightarrow> (case d of None \<Rightarrow> False | Some (y, m) \<Rightarrow> Num (m + 1) = fm));
          matchYear =
            (case filterYear of
               None \<Rightarrow> True
             | Some fy \<Rightarrow> (case d of None \<Rightarrow> False | Some (y, m) \<Rightarrow> Num y = fy))
      in matchMonth \<and> matchYear)"

text \<open>
  GET /api/projects/completed.
\<close>

definition completedHandler ::
  "(nat \<Rightarrow> string) \<Rightarrow> (string \<Rightarrow> jsnum) \<Rightarrow> (string \<Rightarrow> (int \<times> int) option) \<Rightarrow>
   string option \<Rightarrow> string option \<Rightarrow> bool \<Rightarrow> 'a database option \<Rightarrow> 'a outcome" where
  "completedHandler clock parseIntS localDate month year writeOk file =
     (case file of
        None \<Rightarrow> \<lparr>statusCode = 500, body = ErrorBody ''Failed to read database'', writes = []\<rparr>
      | Some dbData0 \<Rightarrow>
          (let dbData = snd (evaluateProjectCompletionStatus clock dbData0)
           in if \<not> writeOk
              then \<lparr>statusCode = 500, body = ErrorBody ''Internal server error'',
                    writes = [dbData]\<rparr>
              else
                (let sts = orEmpty (stages dbData);
                     completedProjects =
                       filter (\<lambda>p. isProjectCompleted (p_id p) sts \<and> truthy (completionDate p))
                         (orEmpty (projects dbData));
                     filterMonth = queryFilter parseIntS month;
                     filterYear = queryFilter parseIntS year;
                     completedProjects' =
                       (if filterMonth \<noteq> None \<or> filterYear \<noteq> None
                        then filter (matchesFilter localDate filterMonth filterYear)
                               completedProjects
                        else completedProjects);
                     enr = map (enrich ''Completed'' sts) completedProjects'
                 in \<lparr>statusCode = 200,
                     body = CompletedBody (length enr) filterMonth filterYear enr,
                     writes = [dbData]\<rparr>)))"

text \<open>
  GET /api/projects/in-progress.
\<close>

definition inProgressHandler ::
  "(nat \<Rightarrow> string) \<Rightarrow> bool \<Rightarrow> 'a database option \<Rightarrow> 'a outcome" where
  "inProgressHandler clock writeOk file =
     (case file of
        None \<Rightarrow> \<lparr>statusCode = 500, body = ErrorBody ''Failed to read database'', writes = []\<rparr>
      | Some dbData0 \<Rightarrow>
          (let dbData = snd (evaluateProjectCompletionStatus clock dbData0)
           in if \<not> writeOk
              then \<lparr>statusCode = 500, body = ErrorBody ''Internal server error'',
                    writes = [dbData]\<rparr>
              else
                (let sts = orEmpty (stages dbData);
                     inProgressProjects =
                       filter (\<lambda>p. \<not> isProjectCompleted (p_id p) sts) (orEmpty (projects dbData));
                     enr = map (enrich ''In Progress'' sts) inProgressProjects
                 in \<lparr>statusCode = 200, body = InProgressBody (length enr) enr,
                     writes = [dbData]\<rparr>)))"

text \<open>
  GET /api/projects/evaluate. \<^verbatim>\<open>p.completionDate || null\<close> turns a falsy value into
  \<^verbatim>\<open>null\<close>.
\<close>

definition evaluateHandler ::
  "(nat \<Rightarrow> string) \<Rightarrow> bool \<Rightarrow> 'a database option \<Rightarrow> 'a outcome" where
  "evaluateHandler clock writeOk file =
     (case file of
        None \<Rightarrow> \<lparr>statusCode = 500, body = ErrorBody ''Failed to read database'', writes = []\<rparr>
      | Some dbData0 \<Rightarrow>
          (let (updated, dbData) = evaluateProjectCompletionStatus clock dbData0
           in if updated \<and> \<not> writeOk
              then \<lparr>statusCode = 500, body = ErrorBody ''Internal server error'',
                    writes = [dbData]\<rparr>
              else
                (let sts = orEmpty (stages dbData);
                     sm = map (\<lambda>p. \<lparr>sum_id = p_id p, sum_name = p_name p,
                                     completed = isProjectCompleted (p_id p) sts,
                                     sum_completionDate =
                                       (if truthy (completionDate p) then completionDate p
                                        else None)\<rparr>)
                            (orEmpty (projects dbData))
                 in \<lparr>statusCode = 200, body = EvaluateBody updated sm,
                     writes = (if updated then [dbData] else [])\<rparr>)))"

text \<open>
  The body of a POST /api/sync request, after \<^verbatim>\<open>JSON.parse\<close> and the destructuring
  \<^verbatim>\<open>const { key, data } = ...\<close>. \<open>Unparsable\<close> is a body on which one of the two
  throws (text that is not JSON, or the JSON value \<^verbatim>\<open>null\<close>). Otherwise \<open>data\<close> is
  an array, or a value that is not one (\<open>JUndefined\<close> when it is absent), and the
  handler uses of \<open>key\<close> its truthiness, the property it names in \<^verbatim>\<open>dbData[key]\<close>
  and whether it is the string \<^verbatim>\<open>stages\<close>: a key is a string, or a falsy value that is
  not a string (absent, \<^verbatim>\<open>null\<close>, \<^verbatim>\<open>false\<close>, 0), or a truthy value that is not a
  string, given by the name of its property.
\<close>

datatype jsvalue = JUndefined | JNull | JBool bool | JNumber int | JString string | JObject

datatype jskey = FalsyKey | StringKey string | OtherKey string

datatype 'a data = NotArray jsvalue | Array 'a

datatype 'a syncBody = Unparsable | Fields jskey "'a data"

fun keyTruthy :: "jskey \<Rightarrow> bool" where
  "keyTruthy FalsyKey = False"
| "keyTruthy (StringKey s) = (s \<noteq> [])"
| "keyTruthy (OtherKey n) = True"

fun keyName :: "jskey \<Rightarrow> string" where
  "keyName FalsyKey = []"
| "keyName (StringKey s) = s"
| "keyName (OtherKey n) = n"

fun isArray :: "'a data \<Rightarrow> bool" where
  "isArray (NotArray v) = False"
| "isArray (Array a) = True"

text \<open>
  \<^verbatim>\<open>dbData[key] = data\<close>. The array stored under \<^verbatim>\<open>projects\<close> or \<^verbatim>\<open>stages\<close> is
  read afterwards as projects or as stages: \<open>asProjects\<close> and \<open>asStages\<close> give the
  records of an untyped array. Any other property holds the array as it is.
\<close>

fun setProperty :: "string \<Rightarrow> 'a \<Rightarrow> (string \<times> 'a) list \<Rightarrow> (string \<times> 'a) list" where
  "setProperty k a [] = [(k, a)]"
| "setProperty k a ((k', a') # kvs) =
     (if k' = k then (k, a) # kvs else (k', a') # setProperty k a kvs)"

definition assign ::
  "('a \<Rightarrow> project list) \<Rightarrow> ('a \<Rightarrow> stage list) \<Rightarrow> string \<Rightarrow> 'a \<Rightarrow> 'a database \<Rightarrow> 'a database" where
  "assign asProjects asStages k a dbData =
     (if k = ''projects'' then dbData\<lparr>projects := Some (asProjects a)\<rparr>
      else if k = ''stages'' then dbData\<lparr>stages := Some (asStages a)\<rparr>
      else dbData\<lparr>collections := setProperty k a (collections dbData)\<rparr>)"

text \<open>
  POST /api/sync. The check of the payload comes first, then \<^verbatim>\<open>readDB\<close>, the
  assignment, the evaluation when the key is \<^verbatim>\<open>stages\<close>, and \<^verbatim>\<open>await writeDB\<close>. An
  exception anywhere is caught and answered with 500.
\<close>

definition syncHandler ::
  "(nat \<Rightarrow> string) \<Rightarrow> ('a \<Rightarrow> project list) \<Rightarrow> ('a \<Rightarrow> stage list) \<Rightarrow>
   'a syncBody \<Rightarrow> bool \<Rightarrow> 'a database option \<Rightarrow> 'a outcome" where
  "syncHandler clock asProjects asStages b writeOk file =
     (case b of
        Unparsable \<Rightarrow> \<lparr>statusCode = 500, body = ErrorBody ''Sync failed: '', writes = []\<rparr>
      | Fields k d \<Rightarrow>
          if \<not> keyTruthy k \<or> \<not> isArray d
          then \<lparr>statusCode = 400,
                body = ErrorBody ''Invalid payload: key (string) and data (array) required'',
                writes = []\<rparr>
          else
            (case file of
               None \<Rightarrow>
                 \<lparr>statusCode = 500, body = ErrorBody ''Failed to read database'', writes = []\<rparr>
             | Some dbData0 \<Rightarrow>
                 (let dbData1 = (case d of
                                   Array a \<Rightarrow> assign asProjects asStages (keyName k) a dbData0
                                 | NotArray _ \<Rightarrow> dbData0);
                      dbData = (if k = StringKey ''stages''
                                then snd (evaluateProjectCompletionStatus clock dbData1)
                                else dbData1)
                  in if writeOk
                     then \<lparr>statusCode = 200, body = SuccessBody, writes = [dbData]\<rparr>
                     else \<lparr>statusCode = 500, body = ErrorBody ''Sync failed: '',
                           writes = [dbData]\<rparr>)))"

section \<open>Server: a request and its write\<close>

text \<open>
  The write queue while a handler awaits: each call of \<^verbatim>\<open>writeDB\<close> is followed by the
  turn of its callback, at which \<^verbatim>\<open>fs.writeFileSync\<close> does \<open>r\<close>. The queue starts
  empty on the file that the handler read.
\<close>

definition awaitWrite :: "'a fsResult \<Rightarrow> 'a database option \<Rightarrow> 'a database list \<Rightarrow> 'a serializer" where
  "awaitWrite r file ws =
     runQueue (concat (map (\<lambda>w. [Enqueue w, Turn r]) ws)) (initialSerializer file)"

text \<open>
  A request served by a handler: the promise that the handler awaits is resolved exactly
  when the write of its callback succeeds. The result is what the handler answers and
  the write queue, with the file, after the request.
\<close>

definition served ::
  "(bool \<Rightarrow> 'a database option \<Rightarrow> 'a outcome) \<Rightarrow> 'a fsResult \<Rightarrow> 'a database option \<Rightarrow>
   'a outcome \<times> 'a serializer" where
  "served handler r file =
     (let out = handler (outcomeOf r = Fulfilled) file
      in (out, awaitWrite r file (writes out)))"

section \<open>Client: local cache and sync queue\<close>

text \<open>
  The client's globals: the collections of \<^verbatim>\<open>window.dbStore\<close> that the evaluation reads
  (arrays from the start, and replaced by arrays only), \<^verbatim>\<open>pendingSyncs\<close> and
  \<^verbatim>\<open>isSyncing\<close>. Two more fields hold the requests that were sent and are not settled yet:
  those of \<^verbatim>\<open>syncToBackend\<close> and those of the batch of \<^verbatim>\<open>flushPendingSyncs\<close>. The
  data of a request is the array at its value when \<^verbatim>\<open>syncToBackend\<close> was called.
\<close>

datatype payload =
    UsersData "user list"
  | ProjectsData "project list"
  | StagesData "stage list"
  | NotificationsData "notification list"

record client =
  store_users :: "user list"
  store_projects :: "project list"
  store_stages :: "stage list"
  store_notifications :: "notification list"
  pendingSyncs :: "(string \<times> payload) list"
  isSyncing :: bool
  pushing :: "(string \<times> payload) list"
  flushing :: "(string \<times> payload) list"

text \<open>
  \<^verbatim>\<open>syncToBackend(key, data)\<close> sends the request; its \<^verbatim>\<open>then\<close> and \<^verbatim>\<open>catch\<close>
  callbacks run when the request is settled.
\<close>

definition syncToBackend :: "string \<Rightarrow> payload \<Rightarrow> client \<Rightarrow> client" where
  "syncToBackend k d c = c\<lparr>pushing := pushing c @ [(k, d)]\<rparr>"

text \<open>
  \<^verbatim>\<open>flushPendingSyncs()\<close> up to the sending of the batch.
\<close>

definition flushPendingSyncs :: "client \<Rightarrow> client" where
  "flushPendingSyncs c =
     (if isSyncing c \<or> length (pendingSyncs c) = 0 then c
      else c\<lparr>isSyncing := True, flushing := flushing c @ pendingSyncs c, pendingSyncs := []\<rparr>)"

text \<open>
  The \<^verbatim>\<open>then\<close> callback of \<^verbatim>\<open>syncToBackend\<close>, for a response with \<^verbatim>\<open>res.ok\<close>.
\<close>

definition pushSucceeded :: "string \<Rightarrow> payload \<Rightarrow> client \<Rightarrow> client" where
  "pushSucceeded k d c =
     (if (k, d) \<in> set (pushing c)
      then (let c1 = c\<lparr>pushing := remove1 (k, d) (pushing c)\<rparr>
            in if length (pendingSyncs c1) > 0 then flushPendingSyncs c1 else c1)
      else c)"

fun findIndex :: "('a \<Rightarrow> bool) \<Rightarrow> 'a list \<Rightarrow> nat option" where
  "findIndex P [] = None"
| "findIndex P (x # xs) =
     (if P x then Some 0 else (case findIndex P xs of None \<Rightarrow> None | Some i \<Rightarrow> Some (Suc i)))"

text \<open>
  The \<^verbatim>\<open>catch\<close> callback of \<^verbatim>\<open>syncToBackend\<close>, for a request that failed or a
  response without \<^verbatim>\<open>res.ok\<close>.
\<close>

definition pushFailed :: "string \<Rightarrow> payload \<Rightarrow> client \<Rightarrow> client" where
  "pushFailed k d c =
     (if (k, d) \<in> set (pushing c)
      then (let c1 = c\<lparr>pushing := remove1 (k, d) (pushing c)\<rparr>
            in case findIndex (\<lambda>s. fst s = k) (pendingSyncs c1) of
                 Some existing \<Rightarrow>
                   c1\<lparr>pendingSyncs :=
                        (pendingSyncs c1)[existing := (fst (pendingSyncs c1 ! existing), d)]\<rparr>
               | None \<Rightarrow> c1\<lparr>pendingSyncs := pendingSyncs c1 @ [(k, d)]\<rparr>)
      else c)"

text \<open>
  A request of the batch is settled: a rejected one runs the \<^verbatim>\<open>catch\<close> callback, which
  pushes the item back. When the last request of the batch is settled, \<^verbatim>\<open>Promise.all\<close>
  is, and \<^verbatim>\<open>finally\<close> resets \<^verbatim>\<open>isSyncing\<close>.
\<close>

definition flushItemSettled :: "bool \<Rightarrow> string \<Rightarrow> payload \<Rightarrow> client \<Rightarrow> client" where
  "flushItemSettled ok k d c =
     (if (k, d) \<in> set (flushing c)
      then (let rest = remove1 (k, d) (flushing c);
                c1 = (if ok then c else c\<lparr>pendingSyncs := pendingSyncs c @ [(k, d)]\<rparr>)
            in c1\<lparr>flushing := rest, isSyncing := (if rest = [] then False else isSyncing c1)\<rparr>)
      else c)"

text \<open>
  The \<^verbatim>\<open>then\<close> callback of \<^verbatim>\<open>fetchAllData\<close>, for a response that holds the given
  collections as arrays.
\<close>

definition fetchAllSucceeded ::
  "user list option \<Rightarrow> project list option \<Rightarrow> stage list option \<Rightarrow> notification list option \<Rightarrow>
   client \<Rightarrow> client" where
  "fetchAllSucceeded us ps ss ns c =
     (let c1 = c\<lparr>store_users := (case us of None \<Rightarrow> store_users c | Some x \<Rightarrow> x),
                  store_projects := (case ps of None \<Rightarrow> store_projects c | Some x \<Rightarrow> x),
                  store_stages := (case ss of None \<Rightarrow> store_stages c | Some x \<Rightarrow> x),
                  store_notifications :=
                    (case ns of None \<Rightarrow> store_notifications c | Some x \<Rightarrow> x)\<rparr>
      in if length (pendingSyncs c1) > 0 then flushPendingSyncs c1 else c1)"

text \<open>
  The events of the sync queue, and a run of the client over a list of them.
\<close>

datatype syncEvent =
    Push string payload
  | PushOk string payload
  | PushFailed string payload
  | FlushItemOk string payload
  | FlushItemFailed string payload
  | FetchAllOk

fun syncStep :: "syncEvent \<Rightarrow> client \<Rightarrow> client" where
  "syncStep (Push k d) c = syncToBackend k d c"
| "syncStep (PushOk k d) c = pushSucceeded k d c"
| "syncStep (PushFailed k d) c = pushFailed k d c"
| "syncStep (FlushItemOk k d) c = flushItemSettled True k d c"
| "syncStep (FlushItemFailed k d) c = flushItemSettled False k d c"
| "syncStep FetchAllOk c = fetchAllSucceeded None None None None c"

definition runSync :: "syncEvent list \<Rightarrow> client \<Rightarrow> client" where
  "runSync evs c = fold syncStep evs c"

definition initialClient :: client where
  "initialClient =
     \<lparr>store_users = [], store_projects = [], store_stages = [], store_notifications = [],
      pendingSyncs = [], isSyncing = False, pushing = [], flushing = []\<rparr>"

text \<open>
  \<^verbatim>\<open>DB.set(key, data)\<close> for the four collections.
\<close>

definition setProjects :: "project list \<Rightarrow> client \<Rightarrow> client" where
  "setProjects ps c = syncToBackend ''projects'' (ProjectsData ps) (c\<lparr>store_projects := ps\<rparr>)"

definition setStages :: "stage list \<Rightarrow> client \<Rightarrow> client" where
  "setStages ss c = syncToBackend ''stages'' (StagesData ss) (c\<lparr>store_stages := ss\<rparr>)"

definition setNotifications :: "notification list \<Rightarrow> client \<Rightarrow> client" where
  "setNotifications ns c =
     syncToBackend ''notifications'' (NotificationsData ns) (c\<lparr>store_notifications := ns\<rparr>)"

section \<open>Client: derived state\<close>

text \<open>
  The \<^verbatim>\<open>projects.forEach\<close> loop of evaluateProjectCompletion, which computes
  \<^verbatim>\<open>isCompleted\<close> in place.
\<close>

fun forEachProjectClient ::
  "(nat \<Rightarrow> string) \<Rightarrow> stage list \<Rightarrow> nat \<Rightarrow> project list \<Rightarrow> bool \<Rightarrow> project list \<times> bool" where
  "forEachProjectClient clock sts i [] updated = ([], updated)"
| "forEachProjectClient clock sts i (p # ps) updated =
     (let projectStages = filter (\<lambda>s. projectId s = p_id p) sts;
          isCompleted = (length projectStages > 0 \<and>
                         list_all (\<lambda>s. parseInt (progress s) = 100) projectStages);
          (p', changed) = setCompletion (clock i) isCompleted p;
          (ps', updated') = forEachProjectClient clock sts (Suc i) ps (updated \<or> changed)
      in (p' # ps', updated'))"

text \<open>
  \<^verbatim>\<open>evaluateProjectCompletion()\<close>. The projects are mutated in the store's own array;
  \<^verbatim>\<open>DB.set\<close> is called when one of them changed.
\<close>

definition evaluateProjectCompletion :: "(nat \<Rightarrow> string) \<Rightarrow> client \<Rightarrow> client" where
  "evaluateProjectCompletion clock c =
     (let (ps', updated) = forEachProjectClient clock (store_stages c) 0 (store_projects c) False;
          c1 = c\<lparr>store_projects := ps'\<rparr>
      in if updated then setProjects ps' c1 else c1)"

text \<open>
  \<^verbatim>\<open>String.prototype.includes\<close>.
\<close>

fun includesStr :: "string \<Rightarrow> string \<Rightarrow> bool" where
  "includesStr [] sub = (sub = [])"
| "includesStr (c # cs) sub = (prefix sub (c # cs) \<or> includesStr cs sub)"

text \<open>
  The message of a notification, a template literal with the two names in double quotes.
\<close>

definition behindScheduleMessage :: "string \<Rightarrow> string \<Rightarrow> string" where
  "behindScheduleMessage stageName projectName =
     ''Stage '' @ [CHR 0x22] @ stageName @ [CHR 0x22] @ '' in project '' @ [CHR 0x22] @
     projectName @ [CHR 0x22] @ '' is behind schedule.''"

text \<open>
  \<^verbatim>\<open>createBehindScheduleNotification(stage)\<close>. \<open>stamp j\<close> holds the two clock readings
  at the target user in position \<open>j\<close>: \<^verbatim>\<open>Date.now().toString()\<close> and
  \<^verbatim>\<open>new Date().toISOString()\<close>.
\<close>

definition createBehindScheduleNotification ::
  "(nat \<Rightarrow> string \<times> string) \<Rightarrow> stage \<Rightarrow> client \<Rightarrow> client" where
  "createBehindScheduleNotification stamp stg c =
     (let ns = store_notifications c;
          existing = find (\<lambda>n. stageId n = s_id stg \<and> includesStr (message n) ''behind schedule'') ns
      in if existing \<noteq> None then c
         else
           (let proj = find (\<lambda>p. p_id p = projectId stg) (store_projects c);
                targetUsers =
                  filter (\<lambda>u. role u = ''Admin'' \<or> role u = ''Project Manager'') (store_users c);
                ns' = ns @
                  map (\<lambda>(j, u).
                         \<lparr>n_id = fst (stamp j) @ ''-'' @ u_id u,
                          userId = u_id u,
                          n_projectId = (case proj of None \<Rightarrow> [] | Some p \<Rightarrow> p_id p),
                          stageId = s_id stg,
                          message = behindScheduleMessage (s_name stg)
                                      (case proj of None \<Rightarrow> [] | Some p \<Rightarrow> p_name p),
                          read = False,
                          n_createdAt = snd (stamp j)\<rparr>)
                      (enumerate 0 targetUsers)
            in setNotifications ns' c))"

text \<open>
  The \<^verbatim>\<open>allStages.forEach\<close> loop of updateAllStageStatuses. \<open>todayStr\<close> is
  \<^verbatim>\<open>new Date().toISOString().split('T')[0]\<close>; strings are compared as JavaScript does,
  character by character. \<open>stamps i\<close> are the clock readings of the call of
  createBehindScheduleNotification for the stage in position \<open>i\<close>.
\<close>

fun forEachStage ::
  "string \<Rightarrow> (nat \<Rightarrow> nat \<Rightarrow> string \<times> string) \<Rightarrow> nat \<Rightarrow> stage list \<Rightarrow> client \<Rightarrow> bool \<Rightarrow>
   stage list \<times> client \<times> bool" where
  "forEachStage todayStr stamps i [] c dbUpdated = ([], c, dbUpdated)"
| "forEachStage todayStr stamps i (stg # rest) c dbUpdated =
     (let newStatus =
            (if parseInt (progress stg) = 100 then ''Completed''
             else if todayStr > plannedEnd stg then ''Behind Schedule''
             else ''On Track'')
      in if status stg \<noteq> newStatus
         then (let stg' = stg\<lparr>status := newStatus\<rparr>;
                   c' = (if newStatus = ''Behind Schedule''
                         then createBehindScheduleNotification (stamps i) stg' c
                         else c);
                   (rest', c'', dbUpdated') = forEachStage todayStr stamps (Suc i) rest c' True
               in (stg' # rest', c'', dbUpdated'))
         else (let (rest', c'', dbUpdated') = forEachStage todayStr stamps (Suc i) rest c dbUpdated
               in (stg # rest', c'', dbUpdated')))"

text \<open>
  \<^verbatim>\<open>updateAllStageStatuses()\<close>. The stages are mutated in the store's own array, which
  createBehindScheduleNotification does not read.
\<close>

definition updateAllStageStatuses ::
  "string \<Rightarrow> (nat \<Rightarrow> nat \<Rightarrow> string \<times> string) \<Rightarrow> (nat \<Rightarrow> string) \<Rightarrow> client \<Rightarrow> client" where
  "updateAllStageStatuses todayStr stamps clock c =
     (let (allStages, c1, dbUpdated) = forEachStage todayStr stamps 0 (store_stages c) c False;
          c2 = c1\<lparr>store_stages := allStages\<rparr>;
          c3 = (if dbUpdated then setStages allStages c2 else c2)
      in evaluateProjectCompletion clock c3)"

text \<open>
  The fields of the stage form. \<^verbatim>\<open>parseInt(...) || 0\<close> of the progress field turns
  \<^verbatim>\<open>NaN\<close> into 0.
\<close>

record stageForm =
  f_id :: string
  f_name :: string
  f_plannedStart :: string
  f_plannedEnd :: string
  f_actualStart :: string
  f_actualEnd :: string
  f_progress :: jsnum

text \<open>
  \<^verbatim>\<open>handleSaveStage(e)\<close>, first part: the status is computed from the form, and an
  existing stage is replaced by its copy with the fields of the form, or a new stage is
  pushed. \<open>dateNow\<close> is \<^verbatim>\<open>Date.now().toString()\<close>. The result is the array passed to
  \<^verbatim>\<open>DB.set\<close>.
\<close>

definition savedStages :: "string \<Rightarrow> string \<Rightarrow> string \<Rightarrow> stageForm \<Rightarrow> stage list \<Rightarrow> stage list" where
  "savedStages todayStr dateNow currentProjectId form sts =
     (let prog = (case f_progress form of NaN \<Rightarrow> 0 | Num n \<Rightarrow> n);
          st = (if prog = 100 then ''Completed''
                else if todayStr > f_plannedEnd form then ''Behind Schedule''
                else ''On Track'')
      in if f_id form \<noteq> []
         then (case findIndex (\<lambda>s. s_id s = f_id form) sts of
                 Some index \<Rightarrow>
                   sts[index := (sts ! index)\<lparr>s_name := f_name form,
                         plannedStart := f_plannedStart form, plannedEnd := f_plannedEnd form,
                         actualStart := f_actualStart form, actualEnd := f_actualEnd form,
                         progress := prog, status := st\<rparr>]
               | None \<Rightarrow> sts)
         else sts @ [\<lparr>s_id = dateNow, projectId = currentProjectId, s_name = f_name form,
                      plannedStart = f_plannedStart form, plannedEnd = f_plannedEnd form,
                      actualStart = f_actualStart form, actualEnd = f_actualEnd form,
                      progress = prog, status = st\<rparr>])"

text \<open>
  \<^verbatim>\<open>handleSaveStage(e)\<close> as a whole: \<^verbatim>\<open>DB.set\<close>, evaluateProjectCompletion and
  renderStages follow, the last of which starts with updateAllStageStatuses. The clock
  readings with index 2 are those of renderStages.
\<close>

definition handleSaveStage ::
  "string \<Rightarrow> string \<Rightarrow> string \<Rightarrow> stageForm \<Rightarrow> (nat \<Rightarrow> string) \<Rightarrow>
   string \<Rightarrow> (nat \<Rightarrow> nat \<Rightarrow> string \<times> string) \<Rightarrow> (nat \<Rightarrow> string) \<Rightarrow> client \<Rightarrow> client" where
  "handleSaveStage todayStr dateNow currentProjectId form clock todayStr2 stamps2 clock2 c =
     (let sts' = savedStages todayStr dateNow currentProjectId form (store_stages c);
          c1 = setStages sts' c;
          c2 = evaluateProjectCompletion clock c1
      in updateAllStageStatuses todayStr2 stamps2 clock2 c2)"

section \<open>Projections of responses\<close>

text \<open>
  The projects of the response of the completed-projects handler, without the fields
  added to each.
\<close>

definition returnedProjects :: "responseBody \<Rightarrow> project list" where
  "returnedProjects b = (case b of CompletedBody n fm fy enr \<Rightarrow> map e_project enr | _ \<Rightarrow> [])"

section \<open>Example data\<close>

text \<open>
  A project with one stage, and a document holding both; the argument is the stage's
  progress.
\<close>

definition exampleProject :: project where
  "exampleProject =
     \<lparr>p_id = ''p1'', p_name = ''Grid'', p_description = [], p_createdBy = ''u1'',
      p_createdAt = ''2024-01-01T00:00:00.000Z'', completionDate = None\<rparr>"

definition exampleStage :: "int \<Rightarrow> stage" where
  "exampleStage n =
     \<lparr>s_id = ''s1'', projectId = ''p1'', s_name = ''Closure'', plannedStart = ''2024-01-01'',
      plannedEnd = ''2024-02-01'', actualStart = [], actualEnd = [], progress = n,
      status = ''On Track''\<rparr>"

definition exampleDocument :: "int \<Rightarrow> unit database" where
  "exampleDocument n =
     \<lparr>projects = Some [exampleProject], stages = Some [exampleStage n], collections = []\<rparr>"

definition exampleClock :: "nat \<Rightarrow> string" where
  "exampleClock i = ''2024-05-01T10:00:00.000Z''"

definition exampleUser :: "string \<Rightarrow> string \<Rightarrow> user" where
  "exampleUser i r = \<lparr>u_id = i, username = i, email = i @ ''@example.org'', role = r\<rparr>"

text \<open>
  A client that holds the example project and stage, an Admin and a Viewer.
\<close>

definition exampleClient :: "int \<Rightarrow> client" where
  "exampleClient n =
     \<lparr>store_users = [exampleUser ''u1'' ''Admin'', exampleUser ''u2'' ''Viewer''],
      store_projects = [exampleProject], store_stages = [exampleStage n],
      store_notifications = [], pendingSyncs = [], isSyncing = False, pushing = [],
      flushing = []\<rparr>"

text \<open>
  Clock readings for the notifications: the milliseconds and the timestamp of the example
  clock.
\<close>

definition exampleStamps :: "nat \<Rightarrow> nat \<Rightarrow> string \<times> string" where
  "exampleStamps i j = (''1714557600000'', ''2024-05-01T10:00:00.000Z'')"

text \<open>
  A client whose stage is planned to end on 2024-12-31, and the stage form filled in to
  edit that stage: progress 80, planned end 2024-02-01.
\<close>

definition onTrackClient :: client where
  "onTrackClient =
     (exampleClient 10)\<lparr>store_stages := [(exampleStage 10)\<lparr>plannedEnd := ''2024-12-31''\<rparr>]\<rparr>"

definition exampleForm :: stageForm where
  "exampleForm =
     \<lparr>f_id = ''s1'', f_name = ''Closure'', f_plannedStart = ''2024-01-01'',
      f_plannedEnd = ''2024-02-01'', f_actualStart = [], f_actualEnd = [],
      f_progress = Num 80\<rparr>"

text \<open>
  A stand-in for the date parser and for \<^verbatim>\<open>parseInt\<close> on strings, right on the strings
  of the examples: the one timestamp lies in May 2024 (month index 4), any other string is
  an invalid date.
\<close>

definition exampleLocalDate :: "string \<Rightarrow> (int \<times> int) option" where
  "exampleLocalDate s = (if s = ''2024-05-01T10:00:00.000Z'' then Some (2024, 4) else None)"

definition exampleParseInt :: "string \<Rightarrow> jsnum" where
  "exampleParseInt s = (if s = ''5'' then Num 5 else if s = ''2024'' then Num 2024 else NaN)"

text \<open>
  A document with two projects, each with its one stage at progress 100: one completed at
  the timestamp above, one whose completionDate is not a date.
\<close>

definition datedProject :: project where
  "datedProject = exampleProject\<lparr>completionDate := Some ''2024-05-01T10:00:00.000Z''\<rparr>"

definition garbageProject :: project where
  "garbageProject = exampleProject\<lparr>p_id := ''p2'', completionDate := Some ''not a date''\<rparr>"

definition garbageDocument :: "unit database" where
  "garbageDocument =
     \<lparr>projects = Some [datedProject, garbageProject],
      stages = Some [exampleStage 100, (exampleStage 100)\<lparr>s_id := ''s2'', projectId := ''p2''\<rparr>],
      collections = []\<rparr>"

text \<open>
  A run of the write queue: two calls, a write that fails, a write that succeeds, a third
  call and its write.
\<close>

definition exampleWrites :: "unit queueEvent list" where
  "exampleWrites =
     [Enqueue (exampleDocument 10), Enqueue (exampleDocument 20),
      Turn (Throws (Some (exampleDocument 0))), Turn Written,
      Enqueue (exampleDocument 30), Turn Written]"

text \<open>
  A run of the sync queue: a push for stages fails, a push for users succeeds and starts a
  flush, a second push for stages fails while the flushed request is out, and then the
  flushed request fails.
\<close>

definition exampleTrace :: "syncEvent list" where
  "exampleTrace =
     [Push ''stages'' (StagesData [exampleStage 10]),
      PushFailed ''stages'' (StagesData [exampleStage 10]),
      Push ''users'' (UsersData []),
      PushOk ''users'' (UsersData []),
      Push ''stages'' (StagesData [exampleStage 20]),
      PushFailed ''stages'' (StagesData [exampleStage 20]),
      FlushItemFailed ''stages'' (StagesData [exampleStage 10])]"

section \<open>The project completion pass\<close>

lemma setCompletion_id: "p_id (fst (setCompletion now c p)) = p_id p"
  by (simp add: setCompletion_def)

lemma setCompletion_frame:
  "(fst (setCompletion now c p))\<lparr>completionDate := None\<rparr> = p\<lparr>completionDate := None\<rparr>"
  by (simp add: setCompletion_def)

lemma setCompletion_truthy:
  "now \<noteq> [] \<Longrightarrow> truthy (completionDate (fst (setCompletion now c p))) = c"
  by (auto simp: setCompletion_def truthy_def)

lemma setCompletion_flag: "snd (setCompletion now c p) = (truthy (completionDate p) \<noteq> c)"
  by (auto simp: setCompletion_def)

lemma setCompletion_fixed:
  "truthy (completionDate p) = c \<Longrightarrow> setCompletion now c p = (p, False)"
  by (auto simp: setCompletion_def)

lemma forEachProject_fst_Cons:
  "fst (forEachProject clock sts i (p # ps) u) =
     fst (setCompletion (clock i) (isProjectCompleted (p_id p) sts) p) #
     fst (forEachProject clock sts (Suc i) ps
            (u \<or> snd (setCompletion (clock i) (isProjectCompleted (p_id p) sts) p)))"
  by (simp add: Let_def case_prod_beta)

lemma forEachProject_snd_Cons:
  "snd (forEachProject clock sts i (p # ps) u) =
     snd (forEachProject clock sts (Suc i) ps
            (u \<or> snd (setCompletion (clock i) (isProjectCompleted (p_id p) sts) p)))"
  by (simp add: Let_def case_prod_beta)

lemma forEachProject_frame:
  "map (\<lambda>p. p\<lparr>completionDate := None\<rparr>) (fst (forEachProject clock sts i ps u)) =
   map (\<lambda>p. p\<lparr>completionDate := None\<rparr>) ps"
proof (induction ps arbitrary: i u)
  case Nil
  show ?case by simp
next
  case (Cons p ps)
  show ?case
    unfolding forEachProject_fst_Cons by (simp add: Cons.IH setCompletion_frame)
qed

lemma evaluate_stages:
  "stages (snd (evaluateProjectCompletionStatus clock db)) = stages db"
  by (simp add: evaluateProjectCompletionStatus_def case_prod_beta split: option.splits)

lemma evaluate_collections:
  "collections (snd (evaluateProjectCompletionStatus clock db)) = collections db"
  by (simp add: evaluateProjectCompletionStatus_def case_prod_beta split: option.splits)

lemma evaluate_projects:
  "projects (snd (evaluateProjectCompletionStatus clock db)) =
     map_option (\<lambda>ps. fst (forEachProject clock (orEmpty (stages db)) 0 ps False)) (projects db)"
  by (simp add: evaluateProjectCompletionStatus_def case_prod_beta orEmpty_def
      split: option.splits)

lemma evaluate_frame:
  "map_option (map (\<lambda>p. p\<lparr>completionDate := None\<rparr>))
     (projects (snd (evaluateProjectCompletionStatus clock db))) =
   map_option (map (\<lambda>p. p\<lparr>completionDate := None\<rparr>)) (projects db)"
  by (cases "projects db") (simp_all add: evaluate_projects forEachProject_frame)

lemma evaluate_example_unchanged:
  "evaluateProjectCompletionStatus exampleClock (exampleDocument 80) =
     (False, exampleDocument 80)"
  by (simp add: evaluateProjectCompletionStatus_def exampleDocument_def exampleProject_def
      exampleStage_def orEmpty_def isProjectCompleted_def setCompletion_def truthy_def
      parseInt_def)

section \<open>Rejection of a malformed sync request\<close>

text \<open>
  Claim C4. A POST /api/sync request whose \<^verbatim>\<open>data\<close> is not an array is answered with
  400, whatever its key, the file's content and the clock: the handler passes nothing to
  \<^verbatim>\<open>writeDB\<close>, so the persisted document is what it was. The check comes before the
  handler reads the file.
\<close>

theorem sync_rejects_non_array:
  "statusCode (syncHandler clock asProjects asStages (Fields k (NotArray v)) writeOk file) = 400
   \<and> writes (syncHandler clock asProjects asStages (Fields k (NotArray v)) writeOk file) = []
   \<and> persist file
        (writes (syncHandler clock asProjects asStages (Fields k (NotArray v)) writeOk file)) =
       file"
  by (simp add: syncHandler_def persist_def)

theorem sync_rejects_non_array_witness:
  "statusCode (syncHandler exampleClock (\<lambda>_. []) (\<lambda>_. [])
      (Fields (StringKey ''stages'') (NotArray (JString ''not-an-array''))) True
      (Some (exampleDocument 80))) = 400
   \<and> persist (Some (exampleDocument 80))
       (writes (syncHandler exampleClock (\<lambda>_. []) (\<lambda>_. [])
          (Fields (StringKey ''stages'') (NotArray (JString ''not-an-array''))) True
          (Some (exampleDocument 80)))) = Some (exampleDocument 80)"
  using sync_rejects_non_array [of exampleClock "\<lambda>_. []" "\<lambda>_. []" "StringKey ''stages''"
      "JString ''not-an-array''" True "Some (exampleDocument 80)"]
  by (simp add: persist_def)

section \<open>Writes of the query endpoints\<close>

lemma awaitWrite_none:
  "attempts (awaitWrite r file []) = [] \<and> disk (awaitWrite r file []) = file"
  by (simp add: awaitWrite_def runQueue_def initialSerializer_def)

lemma awaitWrite_one:
  "attempts (awaitWrite r file [w]) = [w] \<and>
   disk (awaitWrite r file [w]) = (case r of Written \<Rightarrow> Some w | Throws left \<Rightarrow> left)"
  by (cases r) (simp_all add: awaitWrite_def runQueue_def initialSerializer_def writeDB_def
      runNext_def)

lemma completed_status:
  "statusCode (completedHandler clock parseIntS localDate month year writeOk file) =
     (case file of None \<Rightarrow> 500 | Some db \<Rightarrow> if writeOk then 200 else 500)"
  by (simp add: completedHandler_def Let_def split: option.splits)

lemma inProgress_status:
  "statusCode (inProgressHandler clock writeOk file) =
     (case file of None \<Rightarrow> 500 | Some db \<Rightarrow> if writeOk then 200 else 500)"
  by (simp add: inProgressHandler_def Let_def split: option.splits)

lemma evaluate_status:
  "statusCode (evaluateHandler clock writeOk file) =
     (case file of
        None \<Rightarrow> 500
      | Some db \<Rightarrow>
          if fst (evaluateProjectCompletionStatus clock db) \<and> \<not> writeOk then 500 else 200)"
  by (simp add: evaluateHandler_def Let_def case_prod_beta split: option.splits)

lemma handlers_unreadable:
  "writes (completedHandler clock parseIntS localDate month year writeOk None) = []"
  "writes (inProgressHandler clock writeOk None) = []"
  "writes (evaluateHandler clock writeOk None) = []"
  by (simp_all add: completedHandler_def inProgressHandler_def evaluateHandler_def)

lemma handlers_writes:
  "writes (completedHandler clock parseIntS localDate month year writeOk (Some db)) =
      [snd (evaluateProjectCompletionStatus clock db)]"
  "writes (inProgressHandler clock writeOk (Some db)) =
      [snd (evaluateProjectCompletionStatus clock db)]"
  "writes (evaluateHandler clock writeOk (Some db)) =
         (if fst (evaluateProjectCompletionStatus clock db)
          then [snd (evaluateProjectCompletionStatus clock db)] else [])"
  by (simp_all add: completedHandler_def inProgressHandler_def evaluateHandler_def Let_def
      case_prod_beta)

lemma outcome_written: "(outcomeOf r = Fulfilled) = (r = Written)"
  by (cases r) (simp_all add: outcomeOf_def)

text \<open>
  Claim C10, as amended. When the file is readable, a request GET /api/projects/completed
  or GET /api/projects/in-progress makes one call of \<^verbatim>\<open>fs.writeFileSync\<close> with the
  whole evaluated document, whether or not the evaluation changed anything: the file then
  holds that document and the answer is 200, or the write throws and the answer is 500.
  A request GET /api/projects/evaluate does the same when the evaluation reports an
  update, and otherwise writes nothing and leaves the file as it is. When the file is not
  readable, the three requests are answered with 500 and nothing is written. The document
  written differs from the one read in the completionDate of its projects at most: its
  stages and its other collections are those read, and so are its projects once
  completionDate is blanked.
\<close>

theorem get_requests_write:
  "(let db' = snd (evaluateProjectCompletionStatus clock db);
        updated = fst (evaluateProjectCompletionStatus clock db);
        left = (case r of Written \<Rightarrow> Some db' | Throws l \<Rightarrow> l);
        code = (case r of Written \<Rightarrow> 200 | Throws l \<Rightarrow> 500);
        c = served (completedHandler clock parseIntS localDate month year) r (Some db);
        p = served (inProgressHandler clock) r (Some db);
        e = served (evaluateHandler clock) r (Some db);
        c0 = served (completedHandler clock parseIntS localDate month year) r None;
        p0 = served (inProgressHandler clock) r None;
        e0 = served (evaluateHandler clock) r None
    in attempts (snd c) = [db'] \<and> disk (snd c) = left \<and> statusCode (fst c) = code
     \<and> attempts (snd p) = [db'] \<and> disk (snd p) = left \<and> statusCode (fst p) = code
     \<and> attempts (snd e) = (if updated then [db'] else [])
     \<and> disk (snd e) = (if updated then left else Some db)
     \<and> statusCode (fst e) = (if updated then code else 200)
     \<and> attempts (snd c0) = [] \<and> disk (snd c0) = None \<and> statusCode (fst c0) = 500
     \<and> attempts (snd p0) = [] \<and> disk (snd p0) = None \<and> statusCode (fst p0) = 500
     \<and> attempts (snd e0) = [] \<and> disk (snd e0) = None \<and> statusCode (fst e0) = 500
     \<and> stages db' = stages db
     \<and> collections db' = collections db
     \<and> map_option (map (\<lambda>p. p\<lparr>completionDate := None\<rparr>)) (projects db') =
         map_option (map (\<lambda>p. p\<lparr>completionDate := None\<rparr>)) (projects db))"
proof -
  let ?db' = "snd (evaluateProjectCompletionStatus clock db)"
  let ?cSome = "served (completedHandler clock parseIntS localDate month year) r (Some db)"
  let ?pSome = "served (inProgressHandler clock) r (Some db)"
  let ?eSome = "served (evaluateHandler clock) r (Some db)"
  let ?cNone = "served (completedHandler clock parseIntS localDate month year) r None"
  let ?pNone = "served (inProgressHandler clock) r None"
  let ?eNone = "served (evaluateHandler clock) r None"
  let ?left = "case r of Written \<Rightarrow> Some ?db' | Throws l \<Rightarrow> l"
  let ?code = "case r of Written \<Rightarrow> 200 | Throws l \<Rightarrow> (500 :: nat)"
  have c: "attempts (snd ?cSome) = [?db'] \<and> disk (snd ?cSome) = ?left \<and> statusCode (fst ?cSome) = ?code"
    by (cases r) (simp_all add: served_def Let_def handlers_writes awaitWrite_one
        completed_status outcome_written)
  have p: "attempts (snd ?pSome) = [?db'] \<and> disk (snd ?pSome) = ?left \<and> statusCode (fst ?pSome) = ?code"
    by (cases r) (simp_all add: served_def Let_def handlers_writes awaitWrite_one
        inProgress_status outcome_written)
  have e: "attempts (snd ?eSome) =
             (if fst (evaluateProjectCompletionStatus clock db) then [?db'] else [])
         \<and> disk (snd ?eSome) =
             (if fst (evaluateProjectCompletionStatus clock db) then ?left else Some db)
         \<and> statusCode (fst ?eSome) =
             (if fst (evaluateProjectCompletionStatus clock db) then ?code else 200)"
    by (cases r) (simp_all add: served_def Let_def handlers_writes awaitWrite_one
        awaitWrite_none evaluate_status outcome_written)
  have c0: "attempts (snd ?cNone) = [] \<and> disk (snd ?cNone) = None \<and> statusCode (fst ?cNone) = 500"
    by (simp add: served_def Let_def handlers_unreadable awaitWrite_none completed_status)
  have p0: "attempts (snd ?pNone) = [] \<and> disk (snd ?pNone) = None \<and> statusCode (fst ?pNone) = 500"
    by (simp add: served_def Let_def handlers_unreadable awaitWrite_none inProgress_status)
  have e0: "attempts (snd ?eNone) = [] \<and> disk (snd ?eNone) = None \<and> statusCode (fst ?eNone) = 500"
    by (simp add: served_def Let_def handlers_unreadable awaitWrite_none evaluate_status)
  have f: "stages ?db' = stages db \<and> collections ?db' = collections db
     \<and> map_option (map (\<lambda>p. p\<lparr>completionDate := None\<rparr>)) (projects ?db') =
         map_option (map (\<lambda>p. p\<lparr>completionDate := None\<rparr>)) (projects db)"
    by (simp add: evaluate_stages evaluate_collections evaluate_frame)
  from c p e c0 p0 e0 f show ?thesis
    unfolding Let_def by blast
qed

theorem get_requests_write_witness:
  "attempts (snd (served (completedHandler exampleClock (\<lambda>_. NaN) (\<lambda>_. None) None None)
      Written (Some (exampleDocument 80)))) = [exampleDocument 80]
   \<and> disk (snd (served (inProgressHandler exampleClock) Written (Some (exampleDocument 80)))) =
       Some (exampleDocument 80)
   \<and> attempts (snd (served (evaluateHandler exampleClock) Written
       (Some (exampleDocument 80)))) = []
   \<and> fst (evaluateProjectCompletionStatus exampleClock (exampleDocument 80)) = False"
  using get_requests_write [of exampleClock "exampleDocument 80" Written "\<lambda>_. NaN" "\<lambda>_. None"
      None None]
  by (simp add: evaluate_example_unchanged Let_def)

text \<open>
  The claim as stated, a write on every request, fails for a request that finds the file
  unreadable: \<^verbatim>\<open>readDB\<close> returns \<^verbatim>\<open>null\<close>, the handler answers 500 and returns before
  the evaluation and the write.
\<close>

theorem unreadable_file_not_written_counterexample:
  "statusCode (fst (served (completedHandler exampleClock (\<lambda>_. NaN) (\<lambda>_. None) None None)
      Written (None :: unit database option))) = 500
   \<and> attempts (snd (served (completedHandler exampleClock (\<lambda>_. NaN) (\<lambda>_. None) None None)
      Written (None :: unit database option))) = []
   \<and> statusCode (fst (served (inProgressHandler exampleClock) Written
      (None :: unit database option))) = 500
   \<and> attempts (snd (served (inProgressHandler exampleClock) Written
      (None :: unit database option))) = []"
  by (simp add: served_def Let_def handlers_unreadable awaitWrite_none completed_status
      inProgress_status)

lemma isProjectCompleted_iff:
  "isProjectCompleted pid sts \<longleftrightarrow>
     (\<exists>s \<in> set sts. projectId s = pid) \<and>
     (\<forall>s \<in> set sts. projectId s = pid \<longrightarrow> progress s = 100)"
  by (auto simp: isProjectCompleted_def Let_def parseInt_def list_all_iff filter_empty_conv)

lemma forEachProject_map:
  "fst (forEachProject clock sts k ps u) =
     map (\<lambda>(i, p). fst (setCompletion (clock i) (isProjectCompleted (p_id p) sts) p))
       (enumerate k ps)"
proof (induction ps arbitrary: k u)
  case Nil
  show ?case by simp
next
  case (Cons p ps)
  show ?case
    unfolding forEachProject_fst_Cons by (simp add: Cons.IH)
qed

lemma forEachProject_length: "length (fst (forEachProject clock sts k ps u)) = length ps"
  by (simp add: forEachProject_map)

lemma forEachProject_nth:
  "i < length ps \<Longrightarrow>
   fst (forEachProject clock sts k ps u) ! i =
     fst (setCompletion (clock (k + i)) (isProjectCompleted (p_id (ps ! i)) sts) (ps ! i))"
  by (simp add: forEachProject_map nth_enumerate_eq)

lemma forEachProject_set:
  "p' \<in> set (fst (forEachProject clock sts k ps u)) \<Longrightarrow>
   \<exists>p j. p' = fst (setCompletion (clock j) (isProjectCompleted (p_id p) sts) p)"
  by (auto simp: forEachProject_map)

lemma forEachProject_truthy:
  assumes "\<forall>i. clock i \<noteq> []" and "p' \<in> set (fst (forEachProject clock sts k ps u))"
  shows "truthy (completionDate p') = isProjectCompleted (p_id p') sts"
proof -
  from assms(2) obtain p j
    where p': "p' = fst (setCompletion (clock j) (isProjectCompleted (p_id p) sts) p)"
    using forEachProject_set by blast
  from assms(1) have "clock j \<noteq> []" by simp
  then show ?thesis
    unfolding p' by (simp add: setCompletion_truthy setCompletion_id)
qed

lemma forEachProject_flag:
  "snd (forEachProject clock sts i ps u) =
     (u \<or> (\<exists>p \<in> set ps. truthy (completionDate p) \<noteq> isProjectCompleted (p_id p) sts))"
proof (induction ps arbitrary: i u)
  case Nil
  then show ?case by simp
next
  case (Cons p ps)
  show ?case
    unfolding forEachProject_snd_Cons Cons.IH setCompletion_flag by auto
qed

lemma forEachProject_fixed:
  "\<forall>p \<in> set ps. truthy (completionDate p) = isProjectCompleted (p_id p) sts \<Longrightarrow>
   forEachProject clock sts i ps u = (ps, u)"
proof (induction ps arbitrary: i u)
  case Nil
  then show ?case by simp
next
  case (Cons p ps)
  then show ?case
    by (simp add: setCompletion_fixed)
qed

lemma forEachProject_twice:
  assumes "\<forall>i. clock i \<noteq> []"
  shows "forEachProject clock2 sts k2 (fst (forEachProject clock sts k ps u)) u2 =
           (fst (forEachProject clock sts k ps u), u2)"
  using assms by (intro forEachProject_fixed ballI forEachProject_truthy)

lemma forEachProjectClient_eq:
  "forEachProjectClient clock sts i ps u = forEachProject clock sts i ps u"
proof (induction ps arbitrary: i u)
  case Nil
  show ?case by simp
next
  case (Cons p ps)
  have "(0 < length (filter (\<lambda>s. projectId s = p_id p) sts) \<and>
         list_all (\<lambda>s. parseInt (progress s) = 100) (filter (\<lambda>s. projectId s = p_id p) sts))
        = isProjectCompleted (p_id p) sts"
    by (auto simp: isProjectCompleted_def Let_def)
  then show ?case
    by (simp add: Let_def Cons.IH)
qed

lemma evaluate_fst:
  "fst (evaluateProjectCompletionStatus clock db) =
     snd (forEachProject clock (orEmpty (stages db)) 0 (orEmpty (projects db)) False)"
  by (simp add: evaluateProjectCompletionStatus_def case_prod_beta)

lemma evaluate_orEmpty_projects:
  "orEmpty (projects (snd (evaluateProjectCompletionStatus clock db))) =
     fst (forEachProject clock (orEmpty (stages db)) 0 (orEmpty (projects db)) False)"
  by (cases "projects db") (simp_all add: evaluate_projects orEmpty_def)

lemma evaluate_twice:
  assumes "\<forall>i. clock i \<noteq> []"
  shows "evaluateProjectCompletionStatus clock2 (snd (evaluateProjectCompletionStatus clock db)) =
           (False, snd (evaluateProjectCompletionStatus clock db))"
proof -
  let ?db' = "snd (evaluateProjectCompletionStatus clock db)"
  have l: "forEachProject clock2 (orEmpty (stages ?db')) 0 (orEmpty (projects ?db')) False =
             (orEmpty (projects ?db'), False)"
    unfolding evaluate_orEmpty_projects evaluate_stages
    using assms by (rule forEachProject_twice)
  show ?thesis
    unfolding evaluateProjectCompletionStatus_def [of clock2 ?db'] l
    by (cases "projects ?db'") (simp_all add: orEmpty_def)
qed

lemma evaluateProjectCompletion_projects:
  "store_projects (evaluateProjectCompletion clock c) =
     fst (forEachProject clock (store_stages c) 0 (store_projects c) False)"
  by (simp add: evaluateProjectCompletion_def forEachProjectClient_eq case_prod_beta Let_def
      setProjects_def syncToBackend_def)

lemma evaluateProjectCompletion_stages:
  "store_stages (evaluateProjectCompletion clock c) = store_stages c"
  by (simp add: evaluateProjectCompletion_def forEachProjectClient_eq case_prod_beta Let_def
      setProjects_def syncToBackend_def)

lemma evaluateProjectCompletion_twice:
  assumes "\<forall>i. clock i \<noteq> []"
  shows "evaluateProjectCompletion clock2 (evaluateProjectCompletion clock c) =
           evaluateProjectCompletion clock c"
proof -
  let ?c' = "evaluateProjectCompletion clock c"
  have l: "forEachProject clock2 (store_stages ?c') 0 (store_projects ?c') False =
             (store_projects ?c', False)"
    unfolding evaluateProjectCompletion_projects evaluateProjectCompletion_stages
    using assms by (rule forEachProject_twice)
  show ?thesis
    unfolding evaluateProjectCompletion_def [of clock2 ?c'] forEachProjectClient_eq l
    by simp
qed

lemma exampleClock_nonempty: "\<forall>i. exampleClock i \<noteq> []"
  by (simp add: exampleClock_def)

lemma evaluate_example_completed:
  "evaluateProjectCompletionStatus exampleClock (exampleDocument 100) =
     (True, \<lparr>projects = Some [exampleProject\<lparr>completionDate := Some ''2024-05-01T10:00:00.000Z''\<rparr>],
             stages = Some [exampleStage 100], collections = []\<rparr>)"
  by (simp add: evaluateProjectCompletionStatus_def exampleDocument_def exampleProject_def
      exampleStage_def orEmpty_def isProjectCompleted_def setCompletion_def truthy_def
      parseInt_def exampleClock_def)

section \<open>Completion date and stage progress\<close>

text \<open>
  The completionDate of a stored project is \<^verbatim>\<open>null\<close>, absent, or the non-empty string
  of \<^verbatim>\<open>toISOString\<close>: these are the values that the repository writes (the two
  evaluation passes; handleCreateProject leaves the property out). The passes keep it so.
\<close>

lemma truthy_nonnull: "v \<noteq> Some [] \<Longrightarrow> truthy v = (v \<noteq> None)"
  by (cases v) (simp_all add: truthy_def)

lemma setCompletion_wellformed:
  "now \<noteq> [] \<Longrightarrow> completionDate p \<noteq> Some [] \<Longrightarrow>
   completionDate (fst (setCompletion now c p)) \<noteq> Some []"
  by (simp add: setCompletion_def)

lemma forEachProject_wellformed:
  assumes "\<forall>i. clock i \<noteq> []" and "\<forall>p \<in> set ps. completionDate p \<noteq> Some []"
  shows "\<forall>p \<in> set (fst (forEachProject clock sts k ps u)). completionDate p \<noteq> Some []"
  using assms
  by (auto simp: forEachProject_map in_set_enumerate_eq setCompletion_wellformed)

lemma forEachProject_nonnull:
  assumes "\<forall>i. clock i \<noteq> []" and "\<forall>p \<in> set ps. completionDate p \<noteq> Some []"
    and "p' \<in> set (fst (forEachProject clock sts k ps u))"
  shows "(completionDate p' \<noteq> None) = isProjectCompleted (p_id p') sts"
proof -
  from forEachProject_wellformed [OF assms(1,2)] assms(3)
  have "completionDate p' \<noteq> Some []" by blast
  then have "truthy (completionDate p') = (completionDate p' \<noteq> None)"
    by (rule truthy_nonnull)
  with forEachProject_truthy [OF assms(1,3)] show ?thesis by simp
qed

lemma example_wellformed:
  "\<forall>p \<in> set (orEmpty (projects (exampleDocument 100))). completionDate p \<noteq> Some []"
  "\<forall>p \<in> set (store_projects (exampleClient 100)). completionDate p \<noteq> Some []"
  by (simp_all add: exampleDocument_def exampleClient_def exampleProject_def orEmpty_def)

text \<open>
  Claim C1. Given that the clock readings are non-empty strings, as every result of
  \<^verbatim>\<open>toISOString\<close> is, and that no stored completionDate is the empty string: after the
  evaluation pass of the server or of the client, the completionDate of every project is
  non-null if and only if the project has at least one stage and each of its stages has
  progress 100. In particular a project without stages has completionDate \<^verbatim>\<open>null\<close>,
  and a project that had a completionDate and now has a stage with progress below 100
  has completionDate \<^verbatim>\<open>null\<close> after the pass. The pass stores no empty string
  either.
\<close>

theorem completion_date_nonnull_iff:
  assumes "\<forall>i. clock i \<noteq> []"
    and "\<forall>p \<in> set (orEmpty (projects db)). completionDate p \<noteq> Some []"
    and "\<forall>p \<in> set (store_projects c). completionDate p \<noteq> Some []"
  shows "(\<forall>p \<in> set (orEmpty (projects (snd (evaluateProjectCompletionStatus clock db)))).
            completionDate p \<noteq> None \<longleftrightarrow>
              (\<exists>s \<in> set (orEmpty (stages (snd (evaluateProjectCompletionStatus clock db)))).
                 projectId s = p_id p) \<and>
              (\<forall>s \<in> set (orEmpty (stages (snd (evaluateProjectCompletionStatus clock db)))).
                 projectId s = p_id p \<longrightarrow> progress s = 100))
       \<and> (\<forall>p \<in> set (store_projects (evaluateProjectCompletion clock c)).
            completionDate p \<noteq> None \<longleftrightarrow>
              (\<exists>s \<in> set (store_stages (evaluateProjectCompletion clock c)).
                 projectId s = p_id p) \<and>
              (\<forall>s \<in> set (store_stages (evaluateProjectCompletion clock c)).
                 projectId s = p_id p \<longrightarrow> progress s = 100))
       \<and> (\<forall>i < length (orEmpty (projects db)).
            completionDate (orEmpty (projects db) ! i) \<noteq> None \<and>
            (\<exists>s \<in> set (orEmpty (stages db)).
               projectId s = p_id (orEmpty (projects db) ! i) \<and> progress s < 100) \<longrightarrow>
            completionDate
              (orEmpty (projects (snd (evaluateProjectCompletionStatus clock db))) ! i) = None)
       \<and> (\<forall>i < length (store_projects c).
            completionDate (store_projects c ! i) \<noteq> None \<and>
            (\<exists>s \<in> set (store_stages c).
               projectId s = p_id (store_projects c ! i) \<and> progress s < 100) \<longrightarrow>
            completionDate (store_projects (evaluateProjectCompletion clock c) ! i) = None)
       \<and> (\<forall>p \<in> set (orEmpty (projects (snd (evaluateProjectCompletionStatus clock db)))).
            completionDate p \<noteq> Some [])
       \<and> (\<forall>p \<in> set (store_projects (evaluateProjectCompletion clock c)).
            completionDate p \<noteq> Some [])"
proof -
  have clear: "completionDate (fst (forEachProject clock sts 0 ps False) ! i) = None"
    if "i < length ps" "completionDate (ps ! i) \<noteq> None"
       "\<forall>p \<in> set ps. completionDate p \<noteq> Some []"
       "\<exists>s \<in> set sts. projectId s = p_id (ps ! i) \<and> progress s < 100" for sts ps i
  proof -
    from that(4) have n: "\<not> isProjectCompleted (p_id (ps ! i)) sts"
      by (auto simp: isProjectCompleted_iff)
    from that(1,3) have "completionDate (ps ! i) \<noteq> Some []" by simp
    with that(2) have "truthy (completionDate (ps ! i))"
      by (simp add: truthy_nonnull)
    with that(1) n show ?thesis
      by (simp add: forEachProject_nth setCompletion_def)
  qed
  have 1: "\<forall>p \<in> set (orEmpty (projects (snd (evaluateProjectCompletionStatus clock db)))).
            completionDate p \<noteq> None \<longleftrightarrow>
              (\<exists>s \<in> set (orEmpty (stages (snd (evaluateProjectCompletionStatus clock db)))).
                 projectId s = p_id p) \<and>
              (\<forall>s \<in> set (orEmpty (stages (snd (evaluateProjectCompletionStatus clock db)))).
                 projectId s = p_id p \<longrightarrow> progress s = 100)"
    unfolding evaluate_orEmpty_projects evaluate_stages
    using forEachProject_nonnull [OF assms(1,2)] isProjectCompleted_iff by blast
  have 2: "\<forall>p \<in> set (store_projects (evaluateProjectCompletion clock c)).
            completionDate p \<noteq> None \<longleftrightarrow>
              (\<exists>s \<in> set (store_stages (evaluateProjectCompletion clock c)).
                 projectId s = p_id p) \<and>
              (\<forall>s \<in> set (store_stages (evaluateProjectCompletion clock c)).
                 projectId s = p_id p \<longrightarrow> progress s = 100)"
    unfolding evaluateProjectCompletion_projects evaluateProjectCompletion_stages
    using forEachProject_nonnull [OF assms(1,3)] isProjectCompleted_iff by blast
  have 3: "\<forall>i < length (orEmpty (projects db)).
            completionDate (orEmpty (projects db) ! i) \<noteq> None \<and>
            (\<exists>s \<in> set (orEmpty (stages db)).
               projectId s = p_id (orEmpty (projects db) ! i) \<and> progress s < 100) \<longrightarrow>
            completionDate
              (orEmpty (projects (snd (evaluateProjectCompletionStatus clock db))) ! i) = None"
    unfolding evaluate_orEmpty_projects using clear assms(2) by blast
  have 4: "\<forall>i < length (store_projects c).
            completionDate (store_projects c ! i) \<noteq> None \<and>
            (\<exists>s \<in> set (store_stages c).
               projectId s = p_id (store_projects c ! i) \<and> progress s < 100) \<longrightarrow>
            completionDate (store_projects (evaluateProjectCompletion clock c) ! i) = None"
    unfolding evaluateProjectCompletion_projects using clear assms(3) by blast
  have 5: "\<forall>p \<in> set (orEmpty (projects (snd (evaluateProjectCompletionStatus clock db)))).
            completionDate p \<noteq> Some []"
    unfolding evaluate_orEmpty_projects
    by (rule forEachProject_wellformed [OF assms(1,2)])
  have 6: "\<forall>p \<in> set (store_projects (evaluateProjectCompletion clock c)).
            completionDate p \<noteq> Some []"
    unfolding evaluateProjectCompletion_projects
    by (rule forEachProject_wellformed [OF assms(1,3)])
  from 1 2 3 4 5 6 show ?thesis by blast
qed

theorem completion_date_nonnull_iff_witness:
  "(\<forall>i. exampleClock i \<noteq> [])
   \<and> map completionDate (orEmpty (projects (exampleDocument 100))) = [None]
   \<and> map completionDate (store_projects (exampleClient 100)) = [None]
   \<and> orEmpty (projects (snd (evaluateProjectCompletionStatus exampleClock (exampleDocument 100)))) =
       [exampleProject\<lparr>completionDate := Some ''2024-05-01T10:00:00.000Z''\<rparr>]
   \<and> map progress (orEmpty (stages (exampleDocument 100))) = [100]"
proof -
  note th = completion_date_nonnull_iff [OF exampleClock_nonempty example_wellformed]
  have a: "map completionDate (orEmpty (projects (exampleDocument 100))) = [None]"
    by (simp add: exampleDocument_def exampleProject_def orEmpty_def)
  have b: "map completionDate (store_projects (exampleClient 100)) = [None]"
    by (simp add: exampleClient_def exampleProject_def)
  have c: "orEmpty (projects (snd (evaluateProjectCompletionStatus exampleClock
             (exampleDocument 100)))) =
       [exampleProject\<lparr>completionDate := Some ''2024-05-01T10:00:00.000Z''\<rparr>]"
    by (simp add: evaluate_example_completed orEmpty_def)
  have d: "map progress (orEmpty (stages (exampleDocument 100))) = [100]"
    by (simp add: exampleDocument_def exampleStage_def orEmpty_def)
  from th exampleClock_nonempty a b c d show ?thesis by blast
qed

section \<open>Idempotence of the evaluation pass\<close>

text \<open>
  Claim C3. Given that the clock readings of a first pass are non-empty strings, a second
  pass right after it, whatever its own clock readings, changes nothing: on the server it
  returns \<^verbatim>\<open>false\<close> and leaves the document as the first pass left it, completion
  dates included; on the client it leaves the store as it is and calls \<^verbatim>\<open>DB.set\<close> no
  more, so no request is sent.
\<close>

theorem evaluator_idempotent:
  assumes "\<forall>i. clock i \<noteq> []"
  shows "evaluateProjectCompletionStatus clock2 (snd (evaluateProjectCompletionStatus clock db)) =
           (False, snd (evaluateProjectCompletionStatus clock db))
       \<and> evaluateProjectCompletion clock2 (evaluateProjectCompletion clock c) =
           evaluateProjectCompletion clock c"
  using evaluate_twice [OF assms] evaluateProjectCompletion_twice [OF assms] by blast

theorem evaluator_idempotent_witness:
  "(\<forall>i. exampleClock i \<noteq> [])
   \<and> evaluateProjectCompletionStatus (\<lambda>i. ''2024-06-30T08:00:00.000Z'')
       (snd (evaluateProjectCompletionStatus exampleClock (exampleDocument 100))) =
       (False, \<lparr>projects = Some [exampleProject\<lparr>completionDate := Some ''2024-05-01T10:00:00.000Z''\<rparr>],
             stages = Some [exampleStage 100], collections = []\<rparr>)"
  using evaluator_idempotent [OF exampleClock_nonempty, of "\<lambda>i. ''2024-06-30T08:00:00.000Z''"
      "exampleDocument 100" "exampleClient 100"]
  by (simp add: exampleClock_nonempty evaluate_example_completed)

section \<open>The stage status pass of the client\<close>

lemma create_store:
  "store_projects (createBehindScheduleNotification stamp stg c) = store_projects c \<and>
   store_stages (createBehindScheduleNotification stamp stg c) = store_stages c \<and>
   store_users (createBehindScheduleNotification stamp stg c) = store_users c"
  by (simp add: createBehindScheduleNotification_def Let_def setNotifications_def
      syncToBackend_def)

lemma forEachStage_unfold:
  "forEachStage todayStr stamps i (stg # rest) c u =
     (let newStatus = (if parseInt (progress stg) = 100 then ''Completed''
                       else if todayStr > plannedEnd stg then ''Behind Schedule''
                       else ''On Track'');
          stg' = (if status stg \<noteq> newStatus then stg\<lparr>status := newStatus\<rparr> else stg);
          c' = (if status stg \<noteq> newStatus \<and> newStatus = ''Behind Schedule''
                then createBehindScheduleNotification (stamps i) stg' c else c);
          r = forEachStage todayStr stamps (Suc i) rest c' (u \<or> status stg \<noteq> newStatus)
      in (stg' # fst r, fst (snd r), snd (snd r)))"
  by (simp add: Let_def case_prod_beta del: parseInt_def)

lemma forEachStage_store:
  "store_projects (fst (snd (forEachStage todayStr stamps i sts c u))) = store_projects c \<and>
   store_users (fst (snd (forEachStage todayStr stamps i sts c u))) = store_users c"
proof (induction sts arbitrary: i c u)
  case Nil
  show ?case by simp
next
  case (Cons stg rest)
  show ?case
    unfolding forEachStage_unfold Let_def
    by (simp add: Cons.IH create_store del: forEachStage.simps)
qed

lemma forEachStage_progress:
  "map (\<lambda>s. (projectId s, progress s)) (fst (forEachStage todayStr stamps i sts c u)) =
   map (\<lambda>s. (projectId s, progress s)) sts"
proof (induction sts arbitrary: i c u)
  case Nil
  show ?case by simp
next
  case (Cons stg rest)
  show ?case
    unfolding forEachStage_unfold Let_def
    by (simp add: Cons.IH del: forEachStage.simps)
qed

lemma isProjectCompleted_cong:
  assumes "map (\<lambda>s. (projectId s, progress s)) sts' = map (\<lambda>s. (projectId s, progress s)) sts"
  shows "isProjectCompleted pid sts' = isProjectCompleted pid sts"
proof -
  have h: "isProjectCompleted pid xs \<longleftrightarrow>
          (\<exists>q \<in> set (map (\<lambda>s. (projectId s, progress s)) xs). fst q = pid) \<and>
          (\<forall>q \<in> set (map (\<lambda>s. (projectId s, progress s)) xs). fst q = pid \<longrightarrow> snd q = 100)"
    for xs
    unfolding isProjectCompleted_iff by auto
  show ?thesis by (simp only: h assms)
qed

lemma forEachProject_cong:
  assumes "map (\<lambda>s. (projectId s, progress s)) sts' = map (\<lambda>s. (projectId s, progress s)) sts"
  shows "forEachProject clock sts' i ps u = forEachProject clock sts i ps u"
proof (induction ps arbitrary: i u)
  case Nil
  show ?case by simp
next
  case (Cons p ps)
  show ?case
    by (simp add: Cons.IH isProjectCompleted_cong [OF assms])
qed

lemma updateAllStageStatuses_projects:
  "store_projects (updateAllStageStatuses todayStr stamps clock c) =
     fst (forEachProject clock (store_stages c) 0 (store_projects c) False)"
proof -
  let ?r = "forEachStage todayStr stamps 0 (store_stages c) c False"
  have "store_projects (updateAllStageStatuses todayStr stamps clock c) =
          fst (forEachProject clock (fst ?r) 0 (store_projects (fst (snd ?r))) False)"
    by (simp add: updateAllStageStatuses_def case_prod_beta Let_def
        evaluateProjectCompletion_projects setStages_def syncToBackend_def)
  also have "\<dots> = fst (forEachProject clock (store_stages c) 0 (store_projects c) False)"
    by (simp add: forEachStage_store forEachProject_cong [OF forEachStage_progress])
  finally show ?thesis .
qed

lemma findIndex_Some: "findIndex P xs = Some i \<Longrightarrow> i < length xs \<and> P (xs ! i)"
proof (induction xs arbitrary: i)
  case Nil
  then show ?case by simp
next
  case (Cons x xs)
  then show ?case
    by (cases "P x") (auto split: option.splits)
qed


lemma updateAllStageStatuses_stages:
  "store_stages (updateAllStageStatuses todayStr stamps clock c) =
     fst (forEachStage todayStr stamps 0 (store_stages c) c False)"
  by (simp add: updateAllStageStatuses_def case_prod_beta Let_def
        evaluateProjectCompletion_stages setStages_def syncToBackend_def)

lemma update_example_stages:
  "store_stages (updateAllStageStatuses ''2024-05-01'' exampleStamps exampleClock (exampleClient 80))
     = [(exampleStage 80)\<lparr>status := ''Behind Schedule''\<rparr>]"
  by (simp add: updateAllStageStatuses_stages exampleClient_def exampleStage_def parseInt_def
      createBehindScheduleNotification_def Let_def)

lemma update_example_notifications:
  "map userId (store_notifications
     (updateAllStageStatuses ''2024-05-01'' exampleStamps exampleClock (exampleClient 80)))
     = [''u1'']"
  by (simp add: updateAllStageStatuses_def exampleClient_def exampleStage_def parseInt_def
      createBehindScheduleNotification_def Let_def setNotifications_def setStages_def
      syncToBackend_def evaluateProjectCompletion_def setCompletion_def truthy_def
      exampleProject_def exampleUser_def enumerate_eq_zip setProjects_def)

section \<open>The status rule\<close>



section \<open>Client and server evaluation\<close>

text \<open>
  Claim C6, as amended. On the same projects and stages and with the same clock readings,
  the server's evaluateProjectCompletionStatus, the client's evaluateProjectCompletion
  and the client's whole pass updateAllStageStatuses leave the same projects, completion
  dates included. The server's evaluation computes nothing else: it leaves the stages,
  their status included, and every other collection, the notifications among them, as
  they are.
\<close>

theorem completion_pass_equivalent:
  assumes "store_projects c = orEmpty (projects db)" and "store_stages c = orEmpty (stages db)"
  shows "store_projects (evaluateProjectCompletion clock c) =
           orEmpty (projects (snd (evaluateProjectCompletionStatus clock db)))
       \<and> store_projects (updateAllStageStatuses todayStr stamps clock c) =
           orEmpty (projects (snd (evaluateProjectCompletionStatus clock db)))
       \<and> stages (snd (evaluateProjectCompletionStatus clock db)) = stages db
       \<and> collections (snd (evaluateProjectCompletionStatus clock db)) = collections db"
  using assms
  by (simp add: evaluateProjectCompletion_projects updateAllStageStatuses_projects
      evaluate_orEmpty_projects evaluate_stages evaluate_collections)

theorem completion_pass_equivalent_witness:
  "store_projects (exampleClient 100) = orEmpty (projects (exampleDocument 100))
   \<and> store_stages (exampleClient 100) = orEmpty (stages (exampleDocument 100))
   \<and> store_projects (updateAllStageStatuses ''2024-05-01'' exampleStamps exampleClock
        (exampleClient 100)) =
       [exampleProject\<lparr>completionDate := Some ''2024-05-01T10:00:00.000Z''\<rparr>]"
proof -
  have a: "store_projects (exampleClient 100) = orEmpty (projects (exampleDocument 100))"
    by (simp add: exampleClient_def exampleDocument_def orEmpty_def)
  have b: "store_stages (exampleClient 100) = orEmpty (stages (exampleDocument 100))"
    by (simp add: exampleClient_def exampleDocument_def orEmpty_def)
  show ?thesis
    using a b completion_pass_equivalent [OF a b, of exampleClock "''2024-05-01''" exampleStamps]
    by (simp add: evaluate_example_completed orEmpty_def)
qed

text \<open>
  The claim as stated fails: on the same data the client's pass sets the status of the
  stage to Behind Schedule and creates a notification for the Admin, while the server's
  evaluation leaves the stored status On Track.
\<close>

theorem derived_state_not_equivalent_counterexample:
  "map status (store_stages
     (updateAllStageStatuses ''2024-05-01'' exampleStamps exampleClock (exampleClient 80)))
     = [''Behind Schedule'']
   \<and> map userId (store_notifications
     (updateAllStageStatuses ''2024-05-01'' exampleStamps exampleClock (exampleClient 80)))
     = [''u1'']
   \<and> map status (orEmpty (stages (snd (evaluateProjectCompletionStatus exampleClock
        (exampleDocument 80))))) = [''On Track'']
   \<and> store_stages (exampleClient 80) = orEmpty (stages (exampleDocument 80))
   \<and> store_projects (exampleClient 80) = orEmpty (projects (exampleDocument 80))"
proof -
  have 1: "map status (store_stages
     (updateAllStageStatuses ''2024-05-01'' exampleStamps exampleClock (exampleClient 80)))
     = [''Behind Schedule'']"
    by (simp add: update_example_stages)
  have 3: "map status (orEmpty (stages (snd (evaluateProjectCompletionStatus exampleClock
        (exampleDocument 80))))) = [''On Track'']"
    by (simp add: evaluate_stages exampleDocument_def orEmpty_def exampleStage_def)
  have 4: "store_stages (exampleClient 80) = orEmpty (stages (exampleDocument 80))"
    by (simp add: exampleDocument_def exampleClient_def orEmpty_def)
  have 5: "store_projects (exampleClient 80) = orEmpty (projects (exampleDocument 80))"
    by (simp add: exampleDocument_def exampleClient_def orEmpty_def)
  from 1 update_example_notifications 3 4 5 show ?thesis by blast
qed

section \<open>Behind-schedule notifications\<close>

text \<open>
  What createBehindScheduleNotification does for a stage: when the store holds a
  notification for the stage whose message includes \<^verbatim>\<open>behind schedule\<close>, nothing; when
  it holds none, it appends one notification for each user whose role is Admin or Project
  Manager, in their order, each for this stage and with such a message. So a second call
  for the same stage, once a notification was created, creates nothing.
\<close>

lemma includesStr_append: "includesStr (xs @ sub @ ys) sub"
proof (induction xs)
  case Nil
  have "prefix sub (sub @ ys)" by simp
  then show ?case by (cases "sub @ ys") auto
next
  case (Cons x xs)
  then show ?case by simp
qed

lemma message_includes:
  "includesStr (behindScheduleMessage stageName projectName) ''behind schedule''"
proof -
  have "behindScheduleMessage stageName projectName =
          (''Stage '' @ [CHR 0x22] @ stageName @ [CHR 0x22] @ '' in project '' @ [CHR 0x22] @
           projectName @ [CHR 0x22] @ '' is '') @ ''behind schedule'' @ ''.''"
    by (simp add: behindScheduleMessage_def)
  then show ?thesis
    by (simp only: includesStr_append)
qed

lemma create_when_present:
  "find (\<lambda>n. stageId n = s_id stg \<and> includesStr (message n) ''behind schedule'')
     (store_notifications c) \<noteq> None \<Longrightarrow>
   createBehindScheduleNotification stamp stg c = c"
  by (simp add: createBehindScheduleNotification_def Let_def)

lemma create_absent_eq:
  assumes "find (\<lambda>n. stageId n = s_id stg \<and> includesStr (message n) ''behind schedule'')
             (store_notifications c) = None"
  shows "store_notifications (createBehindScheduleNotification stamp stg c) =
           store_notifications c @
           map (\<lambda>x. \<lparr>n_id = fst (stamp (fst x)) @ ''-'' @ u_id (snd x),
                      userId = u_id (snd x),
                      n_projectId = (case find (\<lambda>p. p_id p = projectId stg) (store_projects c) of
                                       None \<Rightarrow> [] | Some p \<Rightarrow> p_id p),
                      stageId = s_id stg,
                      message = behindScheduleMessage (s_name stg)
                                  (case find (\<lambda>p. p_id p = projectId stg) (store_projects c) of
                                     None \<Rightarrow> [] | Some p \<Rightarrow> p_name p),
                      read = False,
                      n_createdAt = snd (stamp (fst x))\<rparr>)
             (enumerate 0 (filter (\<lambda>u. role u = ''Admin'' \<or> role u = ''Project Manager'')
                             (store_users c)))"
  using assms
  by (simp add: createBehindScheduleNotification_def Let_def setNotifications_def
      syncToBackend_def case_prod_beta)

lemma enum_ids: "map (\<lambda>x. u_id (snd x)) (enumerate n us) = map u_id us"
  by (induction us arbitrary: n) simp_all

lemma create_when_absent:
  assumes "find (\<lambda>n. stageId n = s_id stg \<and> includesStr (message n) ''behind schedule'')
             (store_notifications c) = None"
  shows "\<exists>new. store_notifications (createBehindScheduleNotification stamp stg c) =
                 store_notifications c @ new
             \<and> map userId new =
                 map u_id (filter (\<lambda>u. role u = ''Admin'' \<or> role u = ''Project Manager'')
                             (store_users c))
             \<and> (\<forall>n \<in> set new. stageId n = s_id stg \<and>
                                 includesStr (message n) ''behind schedule'')"
  unfolding create_absent_eq [OF assms]
  by (rule exI, intro conjI, rule refl) (simp_all add: comp_def enum_ids message_includes)

lemma create_twice:
  assumes "filter (\<lambda>u. role u = ''Admin'' \<or> role u = ''Project Manager'') (store_users c) \<noteq> []"
  shows "createBehindScheduleNotification stamp2 stg
           (createBehindScheduleNotification stamp stg c) =
         createBehindScheduleNotification stamp stg c"
proof (cases "find (\<lambda>n. stageId n = s_id stg \<and> includesStr (message n) ''behind schedule'')
               (store_notifications c)")
  case (Some n)
  then show ?thesis by (simp add: create_when_present)
next
  case None
  from create_when_absent [OF None, of stamp] obtain new
    where new: "store_notifications (createBehindScheduleNotification stamp stg c) =
                  store_notifications c @ new"
      and ids: "map userId new =
                  map u_id (filter (\<lambda>u. role u = ''Admin'' \<or> role u = ''Project Manager'')
                              (store_users c))"
      and all: "\<forall>n \<in> set new. stageId n = s_id stg \<and>
                                  includesStr (message n) ''behind schedule''"
    by blast
  from ids assms have "new \<noteq> []" by auto
  then obtain n where "n \<in> set new" by (cases new) auto
  with all have "\<exists>n. n \<in> set (store_notifications c @ new) \<and>
                   stageId n = s_id stg \<and> includesStr (message n) ''behind schedule''"
    by auto
  then have "find (\<lambda>n. stageId n = s_id stg \<and> includesStr (message n) ''behind schedule'')
               (store_notifications (createBehindScheduleNotification stamp stg c)) \<noteq> None"
    unfolding new by (simp add: find_None_iff)
  then show ?thesis by (rule create_when_present)
qed

text \<open>
  Claim C7, at an input where the code does not do what the claim says. On 2024-05-01
  the store holds an Admin and a stage with progress 10, planned to end on 2024-12-31: it
  is On Track, and updateAllStageStatuses leaves it so. The stage is then edited in the
  stage form: progress 80, planned end 2024-02-01. handleSaveStage stores the status
  Behind Schedule itself, so the pass of updateAllStageStatuses that follows finds the
  status unchanged and does not call createBehindScheduleNotification: the stage has
  become Behind Schedule and no notification is created.
\<close>

theorem save_stage_behind_schedule_unnotified:
  "map role (store_users onTrackClient) = [''Admin'', ''Viewer'']
   \<and> map status (store_stages
         (updateAllStageStatuses ''2024-05-01'' exampleStamps exampleClock onTrackClient)) =
       [''On Track'']
   \<and> store_stages (handleSaveStage ''2024-05-01'' ''1714557600000'' ''p1'' exampleForm
         exampleClock ''2024-05-01'' exampleStamps exampleClock onTrackClient) =
       [(exampleStage 80)\<lparr>status := ''Behind Schedule''\<rparr>]
   \<and> store_notifications (handleSaveStage ''2024-05-01'' ''1714557600000'' ''p1'' exampleForm
         exampleClock ''2024-05-01'' exampleStamps exampleClock onTrackClient) = []"
proof -
  have 1: "map role (store_users onTrackClient) = [''Admin'', ''Viewer'']"
    by (simp add: onTrackClient_def exampleClient_def exampleUser_def)
  have 2: "map status (store_stages
         (updateAllStageStatuses ''2024-05-01'' exampleStamps exampleClock onTrackClient)) =
       [''On Track'']"
    by (simp add: updateAllStageStatuses_stages onTrackClient_def exampleClient_def
        exampleStage_def parseInt_def Let_def)
  have 3: "store_stages (handleSaveStage ''2024-05-01'' ''1714557600000'' ''p1'' exampleForm
         exampleClock ''2024-05-01'' exampleStamps exampleClock onTrackClient) =
       [(exampleStage 80)\<lparr>status := ''Behind Schedule''\<rparr>]
     \<and> store_notifications (handleSaveStage ''2024-05-01'' ''1714557600000'' ''p1'' exampleForm
         exampleClock ''2024-05-01'' exampleStamps exampleClock onTrackClient) = []"
    by (simp add: handleSaveStage_def savedStages_def exampleForm_def onTrackClient_def
        exampleClient_def exampleStage_def updateAllStageStatuses_def parseInt_def Let_def
        setStages_def syncToBackend_def evaluateProjectCompletion_def setCompletion_def
        truthy_def exampleProject_def setProjects_def)
  from 1 2 3 show ?thesis by blast
qed

section \<open>The write queue\<close>

lemma enqueued_snoc:
  "enqueued (evs @ [e]) = enqueued evs @ (case e of Enqueue dbData \<Rightarrow> [dbData] | Turn r \<Rightarrow> [])"
  by (induction evs rule: enqueued.induct) (simp_all split: queueEvent.splits)

lemma turns_snoc:
  "turns (evs @ [e]) = turns evs @ (case e of Enqueue dbData \<Rightarrow> [] | Turn r \<Rightarrow> [r])"
  by (induction evs rule: turns.induct) (simp_all split: queueEvent.splits)

lemma balanced_snoc:
  "balanced k (evs @ [e]) \<longleftrightarrow>
     balanced k evs \<and>
     (case e of Enqueue dbData \<Rightarrow> True
      | Turn r \<Rightarrow> length (turns evs) < k + length (enqueued evs))"
proof (induction k evs rule: balanced.induct)
  case (1 k)
  show ?case by (cases e) simp_all
next
  case (2 k dbData evs)
  then show ?case by (cases e) simp_all
next
  case (3 k r evs)
  then show ?case by (cases e) auto
qed

lemma queueInv_enqueue:
  assumes "queueInv d evs s"
  shows "queueInv d (evs @ [Enqueue dbData]) (writeDB dbData s)"
proof -
  let ?k = "length (turns evs)" and ?n = "length (enqueued evs)"
  from assms have k: "?k \<le> ?n" by (simp add: queueInv_def)
  have w: "drop ?k (zip [0..<Suc ?n] (enqueued evs @ [dbData])) =
           drop ?k (zip [0..<?n] (enqueued evs)) @ [(?n, dbData)]"
    using k by simp
  have n: "(enqueued evs @ [dbData]) ! (?k - Suc 0) = enqueued evs ! (?k - Suc 0)"
    if "turns evs \<noteq> []"
  proof -
    from that have "0 < ?k" by simp
    with k have "?k - Suc 0 < ?n" by linarith
    then show ?thesis by (simp add: nth_append)
  qed
  from assms k show ?thesis
    unfolding queueInv_def
    by (simp add: enqueued_snoc turns_snoc writeDB_def w n split: fsResult.splits)
qed

lemma queueInv_turn:
  assumes "queueInv d evs s" and "length (turns evs) < length (enqueued evs)"
  shows "queueInv d (evs @ [Turn r]) (runNext r s)"
proof -
  let ?k = "length (turns evs)" and ?n = "length (enqueued evs)"
  have w: "drop ?k (zip [0..<?n] (enqueued evs)) =
           (?k, enqueued evs ! ?k) # drop (Suc ?k) (zip [0..<?n] (enqueued evs))"
    using assms(2) by (simp add: Cons_nth_drop_Suc [symmetric])
  have t: "take (Suc ?k) (enqueued evs) = take ?k (enqueued evs) @ [enqueued evs ! ?k]"
    using assms(2) by (simp add: take_Suc_conv_app_nth)
  from assms show ?thesis
    unfolding queueInv_def
    by (cases r) (simp_all add: enqueued_snoc turns_snoc runNext_def w t outcomeOf_def)
qed

lemma queueInv_run:
  "balanced 0 evs \<Longrightarrow> queueInv d evs (runQueue evs (initialSerializer d))"
proof (induction evs rule: rev_induct)
  case Nil
  show ?case by (simp add: queueInv_def runQueue_def initialSerializer_def)
next
  case (snoc e evs)
  from snoc.prems have b: "balanced 0 evs"
    by (simp add: balanced_snoc)
  note inv = snoc.IH [OF b]
  show ?case
  proof (cases e)
    case (Enqueue dbData)
    with queueInv_enqueue [OF inv] show ?thesis
      by (simp add: runQueue_def)
  next
    case (Turn r)
    with snoc.prems have "length (turns evs) < length (enqueued evs)"
      by (simp add: balanced_snoc)
    from queueInv_turn [OF inv this] Turn show ?thesis
      by (simp add: runQueue_def)
  qed
qed

text \<open>
  Claim C9. In a run of the write queue, whatever the order of the calls of
  \<^verbatim>\<open>writeDB\<close> and of the turns of the promise chain, and whatever the writes do: the
  documents passed to \<^verbatim>\<open>fs.writeFileSync\<close> are the documents enqueued, one whole
  document at each turn, in the order of the calls; the promises are settled in that
  order, and the promise of a call is rejected exactly when its own write throws; the
  chain itself is never rejected, so no callback is skipped after a failure, and the
  calls not yet served wait in their order.
\<close>

theorem write_queue_fifo:
  assumes "balanced 0 evs"
  shows "(let s = runQueue evs (initialSerializer d); k = length (turns evs)
          in attempts s = take k (enqueued evs)
           \<and> settled s = zip [0..<k] (map outcomeOf (turns evs))
           \<and> map snd (waiting s) = drop k (enqueued evs)
           \<and> chain s = Fulfilled
           \<and> disk s = (if k = 0 then d
                       else (case last (turns evs) of
                               Written \<Rightarrow> Some (enqueued evs ! (k - 1))
                             | Throws left \<Rightarrow> left)))"
proof -
  from queueInv_run [OF assms]
  have inv: "queueInv d evs (runQueue evs (initialSerializer d))" .
  have "map snd (drop k (zip [0..<length xs] xs)) = drop k xs" for k and xs :: "'a database list"
    by (simp add: drop_map [symmetric])
  with inv show ?thesis
    by (simp add: queueInv_def Let_def)
qed

theorem write_queue_fifo_witness:
  "balanced 0 exampleWrites
   \<and> settled (runQueue exampleWrites (initialSerializer (Some (exampleDocument 0)))) =
       [(0, Rejected), (1, Fulfilled), (2, Fulfilled)]
   \<and> attempts (runQueue exampleWrites (initialSerializer (Some (exampleDocument 0)))) =
       [exampleDocument 10, exampleDocument 20, exampleDocument 30]
   \<and> disk (runQueue exampleWrites (initialSerializer (Some (exampleDocument 0)))) =
       Some (exampleDocument 30)"
proof -
  have b: "balanced 0 exampleWrites"
    by (simp add: exampleWrites_def)
  have z: "zip [0..<3] [Rejected, Fulfilled, Fulfilled] =
      [(0, Rejected), (1, Fulfilled), (2, Fulfilled)]"
    by (simp add: upt_rec)
  show ?thesis
    using b write_queue_fifo [OF b, of "Some (exampleDocument 0)"]
    by (simp add: Let_def exampleWrites_def outcomeOf_def z numeral_3_eq_3)
qed

section \<open>The pending queue of the client\<close>

text \<open>
  The \<^verbatim>\<open>catch\<close> callback of syncToBackend coalesces: it keeps the keys of the pending
  queue distinct.
\<close>

lemma findIndex_None: "findIndex P xs = None \<Longrightarrow> \<forall>x \<in> set xs. \<not> P x"
proof (induction xs)
  case Nil
  then show ?case by simp
next
  case (Cons x xs)
  then show ?case
    by (cases "P x") (auto split: option.splits)
qed

lemma pushFailed_coalesces:
  assumes "distinct (map fst (pendingSyncs c))"
  shows "distinct (map fst (pendingSyncs (pushFailed k d c)))"
proof (cases "(k, d) \<in> set (pushing c)")
  case False
  with assms show ?thesis by (simp add: pushFailed_def)
next
  case True
  show ?thesis
  proof (cases "findIndex (\<lambda>s. fst s = k) (pendingSyncs c)")
    case None
    from findIndex_None [OF None] have "k \<notin> fst ` set (pendingSyncs c)"
      by auto
    with assms True None show ?thesis
      by (simp add: pushFailed_def Let_def)
  next
    case (Some i)
    from findIndex_Some [OF Some] have i: "i < length (pendingSyncs c)"
      by simp
    have "map fst ((pendingSyncs c)[i := (fst (pendingSyncs c ! i), d)]) = map fst (pendingSyncs c)"
      using i by (simp add: map_update list_update_same_conv)
    with assms True Some show ?thesis
      by (simp add: pushFailed_def Let_def)
  qed
qed

text \<open>
  Claim C5, at an input where the code does not do what the claim says. The
  \<^verbatim>\<open>catch\<close> callback of flushPendingSyncs pushes the failed item back without looking
  for an entry with the same key: after the run below the pending queue holds two entries
  for the key \<^verbatim>\<open>stages\<close>, the newer payload first and the older one last.
\<close>

theorem pending_syncs_duplicate_key:
  "pendingSyncs (runSync exampleTrace initialClient) =
     [(''stages'', StagesData [exampleStage 20]), (''stages'', StagesData [exampleStage 10])]"
  by (simp add: runSync_def exampleTrace_def initialClient_def syncToBackend_def
      pushFailed_def pushSucceeded_def flushPendingSyncs_def flushItemSettled_def
      exampleStage_def Let_def)

section \<open>Filtering of completed projects\<close>

lemma completed_returned:
  "returnedProjects (body (completedHandler clock parseIntS localDate month year True (Some db))) =
     (let db' = snd (evaluateProjectCompletionStatus clock db);
          sts = orEmpty (stages db');
          cps = filter (\<lambda>p. isProjectCompleted (p_id p) sts \<and> truthy (completionDate p))
                  (orEmpty (projects db'))
      in if queryFilter parseIntS month \<noteq> None \<or> queryFilter parseIntS year \<noteq> None
         then filter (matchesFilter localDate (queryFilter parseIntS month)
                        (queryFilter parseIntS year)) cps
         else cps)"
  by (simp add: completedHandler_def returnedProjects_def Let_def enrich_def comp_def)

lemma evaluate_garbage:
  "evaluateProjectCompletionStatus exampleClock garbageDocument = (False, garbageDocument)"
  by (simp add: evaluateProjectCompletionStatus_def garbageDocument_def datedProject_def
      garbageProject_def exampleProject_def exampleStage_def orEmpty_def isProjectCompleted_def
      setCompletion_def truthy_def parseInt_def)

text \<open>
  Claim C8, as amended. When the request carries both a month and a year, the projects
  returned are those that are completed, have a truthy completionDate, and whose
  completionDate parses to a date in that month and in that year. When it carries a month
  or a year, every project returned has a completionDate that parses. When it carries
  neither, the completionDate is not parsed: the projects returned are those that are
  completed and have a truthy completionDate.
\<close>

theorem completed_filter:
  "(let db' = snd (evaluateProjectCompletionStatus clock db);
        sts = orEmpty (stages db');
        r = completedHandler clock parseIntS localDate month year True (Some db)
    in (truthy month \<and> truthy year \<longrightarrow>
          returnedProjects (body r) =
            filter (\<lambda>p. isProjectCompleted (p_id p) sts \<and> truthy (completionDate p) \<and>
                        (case completionDate p of
                           None \<Rightarrow> False
                         | Some cd \<Rightarrow>
                             (case localDate cd of
                                None \<Rightarrow> False
                              | Some (y, m) \<Rightarrow>
                                  Num (m + 1) = parseIntS (the month) \<and>
                                  Num y = parseIntS (the year))))
              (orEmpty (projects db')))
     \<and> (truthy month \<or> truthy year \<longrightarrow>
          (\<forall>p \<in> set (returnedProjects (body r)).
             \<exists>cd. completionDate p = Some cd \<and> localDate cd \<noteq> None))
     \<and> (\<not> truthy month \<and> \<not> truthy year \<longrightarrow>
          returnedProjects (body r) =
            filter (\<lambda>p. isProjectCompleted (p_id p) sts \<and> truthy (completionDate p))
              (orEmpty (projects db'))))"
proof -
  let ?db' = "snd (evaluateProjectCompletionStatus clock db)"
  let ?sts = "orEmpty (stages ?db')"
  let ?r = "completedHandler clock parseIntS localDate month year True (Some db)"
  have 1: "returnedProjects (body ?r) =
            filter (\<lambda>p. isProjectCompleted (p_id p) ?sts \<and> truthy (completionDate p) \<and>
                        (case completionDate p of
                           None \<Rightarrow> False
                         | Some cd \<Rightarrow>
                             (case localDate cd of
                                None \<Rightarrow> False
                              | Some (y, m) \<Rightarrow>
                                  Num (m + 1) = parseIntS (the month) \<and>
                                  Num y = parseIntS (the year))))
              (orEmpty (projects ?db'))"
    if "truthy month" "truthy year"
  proof -
    have eq: "(isProjectCompleted (p_id p) ?sts \<and> truthy (completionDate p) \<and>
               matchesFilter localDate (Some (parseIntS (the month)))
                 (Some (parseIntS (the year))) p) =
              (isProjectCompleted (p_id p) ?sts \<and> truthy (completionDate p) \<and>
                        (case completionDate p of
                           None \<Rightarrow> False
                         | Some cd \<Rightarrow>
                             (case localDate cd of
                                None \<Rightarrow> False
                              | Some (y, m) \<Rightarrow>
                                  Num (m + 1) = parseIntS (the month) \<and>
                                  Num y = parseIntS (the year))))" for p
      by (cases "completionDate p") (auto simp: matchesFilter_def Let_def split: option.splits)
    show ?thesis
      unfolding completed_returned Let_def using that
      by (simp add: queryFilter_def eq)
  qed
  have 2: "\<forall>p \<in> set (returnedProjects (body ?r)).
             \<exists>cd. completionDate p = Some cd \<and> localDate cd \<noteq> None"
    if "truthy month \<or> truthy year"
    using that unfolding completed_returned Let_def
    by (auto simp: queryFilter_def matchesFilter_def Let_def split: option.splits)
  have 3: "returnedProjects (body ?r) =
            filter (\<lambda>p. isProjectCompleted (p_id p) ?sts \<and> truthy (completionDate p))
              (orEmpty (projects ?db'))"
    if "\<not> truthy month" "\<not> truthy year"
    using that unfolding completed_returned Let_def
    by (simp add: queryFilter_def)
  from 1 2 3 show ?thesis unfolding Let_def by blast
qed

theorem completed_filter_witness:
  "truthy (Some ''5'') \<and> truthy (Some ''2024'')
   \<and> returnedProjects (body (completedHandler exampleClock exampleParseInt exampleLocalDate
        (Some ''5'') (Some ''2024'') True (Some garbageDocument))) = [datedProject]"
proof -
  have t: "truthy (Some ''5'')" "truthy (Some ''2024'')"
    by (simp_all add: truthy_def)
  note r = completed_filter [of exampleClock garbageDocument exampleParseInt exampleLocalDate
        "Some ''5''" "Some ''2024''", unfolded Let_def, THEN conjunct1, THEN mp,
        OF conjI [OF t(1) t(2)]]
  show ?thesis
    unfolding r evaluate_garbage
    by (simp add: truthy_def garbageDocument_def datedProject_def
      garbageProject_def exampleProject_def exampleStage_def orEmpty_def isProjectCompleted_def
      parseInt_def exampleLocalDate_def exampleParseInt_def)
qed

text \<open>
  The claim as stated fails for a request without month and year: the project whose
  completionDate is not a date is returned.
\<close>

theorem unparseable_returned_counterexample:
  "returnedProjects (body (completedHandler exampleClock exampleParseInt exampleLocalDate
      None None True (Some garbageDocument))) = [datedProject, garbageProject]
   \<and> completionDate garbageProject = Some ''not a date''
   \<and> exampleLocalDate ''not a date'' = None"
proof -
  have "returnedProjects (body (completedHandler exampleClock exampleParseInt exampleLocalDate
      None None True (Some garbageDocument))) = [datedProject, garbageProject]"
    unfolding completed_returned evaluate_garbage
    by (simp add: queryFilter_def truthy_def garbageDocument_def datedProject_def
      garbageProject_def exampleProject_def exampleStage_def orEmpty_def isProjectCompleted_def
      parseInt_def)
  then show ?thesis
    by (simp add: garbageProject_def exampleLocalDate_def)
qed

end
